theory Spec2Isabelle
  imports Complex_Main
begin

section \<open>Numbers\<close>

text \<open>
  The program computes with the host language's \<open>number\<close> type. A number is modelled as
  an exact real or one of the three special values; arithmetic follows the host's rules
  for the special values (division by zero, \<open>Infinity - Infinity\<close>, comparisons with
  \<open>NaN\<close>). Rounding and the sign of zero are not modelled: \<open>Fin 0\<close> stands for both
  zeros, and a division by it follows the rule for the positive one. A result of these
  definitions is therefore the program's result where the program computes without
  rounding: on sums of zeros, on whole numbers of moderate size and their exact quotients
  (as \<open>150 / 3\<close>), on comparisons away from a boundary. The theorems below are stated
  on such values; the one computation among them that the program rounds on its way is
  noted where it is defined.
\<close>

datatype jsnum = Fin real | PInf | NInf | NaN

fun jneg :: "jsnum \<Rightarrow> jsnum" where
  "jneg (Fin a) = Fin (- a)"
| "jneg PInf = NInf"
| "jneg NInf = PInf"
| "jneg NaN = NaN"

fun jadd :: "jsnum \<Rightarrow> jsnum \<Rightarrow> jsnum" where
  "jadd (Fin a) (Fin b) = Fin (a + b)"
| "jadd NaN _ = NaN"
| "jadd _ NaN = NaN"
| "jadd PInf NInf = NaN"
| "jadd NInf PInf = NaN"
| "jadd PInf _ = PInf"
| "jadd _ PInf = PInf"
| "jadd NInf _ = NInf"
| "jadd _ NInf = NInf"

definition jsub :: "jsnum \<Rightarrow> jsnum \<Rightarrow> jsnum" where
  "jsub a b = jadd a (jneg b)"

fun jmul :: "jsnum \<Rightarrow> jsnum \<Rightarrow> jsnum" where
  "jmul (Fin a) (Fin b) = Fin (a * b)"
| "jmul NaN _ = NaN"
| "jmul _ NaN = NaN"
| "jmul (Fin a) PInf = (if a = 0 then NaN else if 0 < a then PInf else NInf)"
| "jmul (Fin a) NInf = (if a = 0 then NaN else if 0 < a then NInf else PInf)"
| "jmul PInf (Fin b) = (if b = 0 then NaN else if 0 < b then PInf else NInf)"
| "jmul NInf (Fin b) = (if b = 0 then NaN else if 0 < b then NInf else PInf)"
| "jmul PInf PInf = PInf"
| "jmul PInf NInf = NInf"
| "jmul NInf PInf = NInf"
| "jmul NInf NInf = PInf"

fun jdiv :: "jsnum \<Rightarrow> jsnum \<Rightarrow> jsnum" where
  "jdiv (Fin a) (Fin b) =
     (if b \<noteq> 0 then Fin (a / b)
      else if a = 0 then NaN else if 0 < a then PInf else NInf)"
| "jdiv NaN _ = NaN"
| "jdiv _ NaN = NaN"
| "jdiv (Fin a) PInf = Fin 0"
| "jdiv (Fin a) NInf = Fin 0"
| "jdiv PInf (Fin b) = (if 0 \<le> b then PInf else NInf)"
| "jdiv NInf (Fin b) = (if 0 \<le> b then NInf else PInf)"
| "jdiv PInf PInf = NaN"
| "jdiv PInf NInf = NaN"
| "jdiv NInf PInf = NaN"
| "jdiv NInf NInf = NaN"

text \<open>\<open>a < b\<close>; every comparison with \<open>NaN\<close> is false.\<close>

fun jlt :: "jsnum \<Rightarrow> jsnum \<Rightarrow> bool" where
  "jlt (Fin a) (Fin b) = (a < b)"
| "jlt NaN _ = False"
| "jlt _ NaN = False"
| "jlt _ NInf = False"
| "jlt NInf _ = True"
| "jlt PInf _ = False"
| "jlt _ PInf = True"

text \<open>\<open>a === b\<close> on numbers.\<close>

definition jeq :: "jsnum \<Rightarrow> jsnum \<Rightarrow> bool" where
  "jeq a b = (a \<noteq> NaN \<and> a = b)"

definition jle :: "jsnum \<Rightarrow> jsnum \<Rightarrow> bool" where
  "jle a b = (jlt a b \<or> jeq a b)"

fun Math_abs :: "jsnum \<Rightarrow> jsnum" where
  "Math_abs (Fin a) = Fin \<bar>a\<bar>"
| "Math_abs PInf = PInf"
| "Math_abs NInf = PInf"
| "Math_abs NaN = NaN"

definition max2 :: "jsnum \<Rightarrow> jsnum \<Rightarrow> jsnum" where
  "max2 a b = (if a = NaN \<or> b = NaN then NaN else if jlt a b then b else a)"

definition min2 :: "jsnum \<Rightarrow> jsnum \<Rightarrow> jsnum" where
  "min2 a b = (if a = NaN \<or> b = NaN then NaN else if jlt b a then b else a)"

text \<open>\<open>Math.max(...xs)\<close> and \<open>Math.min(...xs)\<close>: \<open>-Infinity\<close> and \<open>Infinity\<close> on no
  argument, \<open>NaN\<close> as soon as one argument is \<open>NaN\<close>. (An engine's limit on how many
  arguments a call can spread is not modelled.)\<close>

definition Math_max :: "jsnum list \<Rightarrow> jsnum" where
  "Math_max xs = foldl max2 NInf xs"

definition Math_min :: "jsnum list \<Rightarrow> jsnum" where
  "Math_min xs = foldl min2 PInf xs"

fun Math_floor :: "jsnum \<Rightarrow> jsnum" where
  "Math_floor (Fin a) = Fin (of_int \<lfloor>a\<rfloor>)"
| "Math_floor a = a"

fun Math_ceil :: "jsnum \<Rightarrow> jsnum" where
  "Math_ceil (Fin a) = Fin (of_int \<lceil>a\<rceil>)"
| "Math_ceil a = a"

text \<open>\<open>Math.round\<close> rounds a tie towards \<open>+Infinity\<close>.\<close>

fun Math_round :: "jsnum \<Rightarrow> jsnum" where
  "Math_round (Fin a) = Fin (of_int \<lfloor>a + 1 / 2\<rfloor>)"
| "Math_round a = a"

text \<open>
  The operator table \<open>OPERATORS\<close> of the script parser, at its entries \<open>'=='\<close>,
  \<open>'!='\<close> and \<open>'/'\<close>: equality within \<open>0.0001\<close>, and a quotient that is 0 when the
  divisor is 0. No function of the parser reads the table; \<open>safeEval\<close> below hands the
  expression text to the host instead. (The comparison with \<open>0.0001\<close> is exact here;
  for two numbers whose distance is within rounding of \<open>0.0001\<close>, as 1 and 1.0001, the
  program's answer can be the other one.)
\<close>

definition OPERATORS_eq :: "jsnum \<Rightarrow> jsnum \<Rightarrow> bool" where
  "OPERATORS_eq a b = jlt (Math_abs (jsub a b)) (Fin 0.0001)"

definition OPERATORS_ne :: "jsnum \<Rightarrow> jsnum \<Rightarrow> bool" where
  "OPERATORS_ne a b = jle (Fin 0.0001) (Math_abs (jsub a b))"

definition OPERATORS_div :: "jsnum \<Rightarrow> jsnum \<Rightarrow> jsnum" where
  "OPERATORS_div a b = (if \<not> jeq b (Fin 0) then jdiv a b else Fin 0)"

section \<open>Arrays\<close>

text \<open>\<open>xs.slice(a, b)\<close>: a negative index counts from the end, and both ends are clamped
  to the array.\<close>

definition slice :: "'a list \<Rightarrow> int \<Rightarrow> int \<Rightarrow> 'a list" where
  "slice xs a b =
     (let n = int (length xs);
          from = (if a < 0 then max (n + a) 0 else min a n);
          to = (if b < 0 then max (n + b) 0 else min b n)
      in take (nat (to - from)) (drop (nat from) xs))"

text \<open>\<open>xs.reduce((a, b) => a + b, 0)\<close>.\<close>

definition sumOf :: "jsnum list \<Rightarrow> jsnum" where
  "sumOf xs = foldl jadd (Fin 0) xs"

text \<open>A read \<open>xs[i]\<close> whose value is only used in arithmetic: out of range the host gives
  \<open>undefined\<close>, which arithmetic turns into \<open>NaN\<close>.\<close>

definition numAt :: "jsnum list \<Rightarrow> int \<Rightarrow> jsnum" where
  "numAt xs i = (if 0 \<le> i \<and> i < int (length xs) then xs ! nat i else NaN)"

section \<open>The indicator library\<close>

text \<open>A period is a whole number here (zero and negative ones included, the code checks
  neither); the loop \<open>for (i = period - 1; i < n; i++)\<close> runs over \<open>[period - 1 .. n - 1]\<close>.
  The code takes any number for a period; what it does with one that is not whole is
  outside these definitions, and a theorem about a period is about a whole one.\<close>

definition sma :: "jsnum list \<Rightarrow> int \<Rightarrow> jsnum list" where
  "sma prices period =
     (if int (length prices) < period then []
      else map (\<lambda>i. jdiv (sumOf (slice prices (i - period + 1) (i + 1))) (Fin (of_int period)))
             [period - 1 .. int (length prices) - 1])"

definition ema :: "jsnum list \<Rightarrow> int \<Rightarrow> jsnum list" where
  "ema prices period =
     (if length prices = 0 then []
      else
        let multiplier = jdiv (Fin 2) (Fin (of_int (period + 1)))
        in if period \<le> int (length prices) then
             let firstSMA = jdiv (sumOf (slice prices 0 period)) (Fin (of_int period))
             in foldl (\<lambda>result i.
                    result @ [jadd (jmul (jsub (numAt prices i) (last result)) multiplier)
                                (last result)])
                  [firstSMA] [period .. int (length prices) - 1]
           else [])"

text \<open>The first loop of \<open>rsi\<close>: the change at each step, split into a gain and a loss.\<close>

definition changes :: "jsnum list \<Rightarrow> jsnum list" where
  "changes prices = map (\<lambda>i. jsub (prices ! i) (prices ! (i - 1))) [1 ..< length prices]"

definition gains :: "jsnum list \<Rightarrow> jsnum list" where
  "gains prices = map (\<lambda>change. if jlt (Fin 0) change then change else Fin 0) (changes prices)"

definition losses :: "jsnum list \<Rightarrow> jsnum list" where
  "losses prices =
     map (\<lambda>change. if jlt change (Fin 0) then Math_abs change else Fin 0) (changes prices)"

text \<open>\<open>xs.slice(i - period + 1, i + 1).reduce((a, b) => a + b, 0) / period\<close>.\<close>

definition windowAvg :: "jsnum list \<Rightarrow> int \<Rightarrow> int \<Rightarrow> jsnum" where
  "windowAvg xs period i = jdiv (sumOf (slice xs (i - period + 1) (i + 1))) (Fin (of_int period))"

text \<open>The body of the second loop of \<open>rsi\<close>, at index \<open>i\<close>.\<close>

definition rsiAt :: "jsnum list \<Rightarrow> jsnum list \<Rightarrow> int \<Rightarrow> int \<Rightarrow> jsnum" where
  "rsiAt gs ls period i =
     (let avgGain = windowAvg gs period i;
          avgLoss = windowAvg ls period i
      in if jeq avgLoss (Fin 0) then Fin 100
         else
           let rs = jdiv avgGain avgLoss
           in jsub (Fin 100) (jdiv (Fin 100) (jadd (Fin 1) rs)))"

definition rsi :: "jsnum list \<Rightarrow> int \<Rightarrow> jsnum list" where
  "rsi prices period =
     (if int (length prices) < period + 1 then []
      else map (rsiAt (gains prices) (losses prices) period)
             [period - 1 .. int (length (gains prices)) - 1])"

record kdjPoint =
  k :: jsnum
  d :: jsnum
  j :: jsnum

text \<open>The two smoothing loops of \<open>kdj\<close>, for K over the RSV values and for D over the K
  values: \<open>v = (x + (smooth - 1) * prev) / smooth; push v; prev = v\<close>.\<close>

fun smoothLoop :: "jsnum \<Rightarrow> jsnum \<Rightarrow> jsnum list \<Rightarrow> jsnum list" where
  "smoothLoop smooth prev [] = []"
| "smoothLoop smooth prev (x # xs) =
     (let v = jdiv (jadd x (jmul (jsub smooth (Fin 1)) prev)) smooth
      in v # smoothLoop smooth v xs)"

definition rsvAt :: "jsnum list \<Rightarrow> jsnum list \<Rightarrow> jsnum list \<Rightarrow> int \<Rightarrow> int \<Rightarrow> jsnum" where
  "rsvAt highs lows closes period i =
     (let highestHigh = Math_max (slice highs (i - period + 1) (i + 1));
          lowestLow = Math_min (slice lows (i - period + 1) (i + 1));
          close = numAt closes i
      in if jeq highestHigh lowestLow then Fin 50
         else jmul (jdiv (jsub close lowestLow) (jsub highestHigh lowestLow)) (Fin 100))"

definition kdj ::
  "jsnum list \<Rightarrow> jsnum list \<Rightarrow> jsnum list \<Rightarrow> int \<Rightarrow> jsnum \<Rightarrow> jsnum \<Rightarrow> kdjPoint list" where
  "kdj highs lows closes period kSmooth dSmooth =
     (if int (length highs) < period \<or> int (length lows) < period
         \<or> int (length closes) < period then []
      else
        let rsvValues = map (rsvAt highs lows closes period)
                          [period - 1 .. int (length closes) - 1];
            kValues = smoothLoop kSmooth (Fin 50) rsvValues;
            dValues = smoothLoop dSmooth (Fin 50) kValues
        in map (\<lambda>i. \<lparr>k = kValues ! i, d = dValues ! i,
                      j = jsub (jmul (Fin 3) (kValues ! i)) (jmul (Fin 2) (dValues ! i))\<rparr>)
             [0 ..< length kValues])"

text \<open>\<open>latest\<close>: the last value, \<open>undefined\<close> (here \<open>None\<close>) on the empty array.\<close>

definition latest :: "'a list \<Rightarrow> 'a option" where
  "latest values = (if 0 < length values then Some (last values) else None)"

section \<open>Text\<close>

text \<open>
  Script text is a \<open>string\<close>: the code units 0 to 255 of the host's strings. The
  classes below are what the host's regular expressions count, among these code units,
  as white space (which is also what \<open>trim\<close> removes), as a digit and as a word
  character.
\<close>

definition isSpace :: "char \<Rightarrow> bool" where
  "isSpace c = (of_char c \<in> {9, 10, 11, 12, 13, 32, 160 :: nat})"

definition isDigit :: "char \<Rightarrow> bool" where
  "isDigit c = (48 \<le> (of_char c :: nat) \<and> (of_char c :: nat) \<le> 57)"

definition isWord :: "char \<Rightarrow> bool" where
  "isWord c = (isDigit c \<or> (65 \<le> (of_char c :: nat) \<and> (of_char c :: nat) \<le> 90)
      \<or> (97 \<le> (of_char c :: nat) \<and> (of_char c :: nat) \<le> 122) \<or> c = CHR ''_'')"

text \<open>The line terminators, which \<open>.\<close> does not match.\<close>

definition isLineEnd :: "char \<Rightarrow> bool" where
  "isLineEnd c = (of_char c \<in> {10, 13 :: nat})"

definition trim :: "string \<Rightarrow> string" where
  "trim s = rev (dropWhile isSpace (rev (dropWhile isSpace s)))"

text \<open>\<open>s.split(sep)\<close> for a separator of one character.\<close>

fun splitOn :: "char \<Rightarrow> string \<Rightarrow> string list" where
  "splitOn sep [] = [[]]"
| "splitOn sep (c # cs) =
     (if c = sep then [] # splitOn sep cs
      else (case splitOn sep cs of p # ps \<Rightarrow> (c # p) # ps | [] \<Rightarrow> [[c]]))"

definition startsWith :: "string \<Rightarrow> string \<Rightarrow> bool" where
  "startsWith s p = (take (length p) s = p)"

definition endsWith :: "string \<Rightarrow> string \<Rightarrow> bool" where
  "endsWith s p = (length p \<le> length s \<and> drop (length s - length p) s = p)"

text \<open>
  \<open>s.replace(re, repl)\<close> where \<open>re\<close> matches, everywhere, the given name between two
  word boundaries. For a name made of word characters, a match starts where the character
  before is not a word character and ends where the character after is not one; the
  search goes on behind the match. \<open>prevWord\<close> tells whether the character before the
  current position is a word character.
\<close>

function replaceWord :: "string \<Rightarrow> string \<Rightarrow> bool \<Rightarrow> string \<Rightarrow> string" where
  "replaceWord name repl prevWord [] = []"
| "replaceWord name repl prevWord (c # cs) =
     (if name \<noteq> [] \<and> \<not> prevWord \<and> startsWith (c # cs) name
         \<and> \<not> (case drop (length name) (c # cs) of [] \<Rightarrow> False | x # _ \<Rightarrow> isWord x)
      then repl @ replaceWord name repl True (drop (length name) (c # cs))
      else c # replaceWord name repl (isWord c) cs)"
  by pat_completeness auto
termination
  by (relation "measure (\<lambda>(name, repl, prevWord, s). length s)") auto

text \<open>The first replacement of \<open>preprocessScript\<close>: a comment, from \<open>//\<close> to the end of
  its line, is removed.\<close>

function removeComments :: "string \<Rightarrow> string" where
  "removeComments (a # b # cs) =
     (if a = CHR ''/'' \<and> b = CHR ''/'' then removeComments (dropWhile (\<lambda>c. \<not> isLineEnd c) cs)
      else a # removeComments (b # cs))"
| "removeComments [a] = [a]"
| "removeComments [] = []"
  by pat_completeness auto
termination
  by (relation "measure length") (auto intro: le_less_trans [OF length_dropWhile_le])

definition preprocessScript :: "string \<Rightarrow> string" where
  "preprocessScript script =
     (let processed = removeComments script;
          processed = replaceWord ''and'' ''&&'' False processed;
          processed = replaceWord ''or'' ''||'' False processed;
          processed = replaceWord ''not'' ''!'' False processed
      in trim processed)"

section \<open>Values, hosts and contexts\<close>

text \<open>
  The values an expression or a built-in function can yield. \<open>JOther s\<close> is any object
  other than an array (the text filter of \<open>safeEval\<close> lets a regular expression literal
  through, for one), with the text \<open>String\<close> gives for it; such a value counts as true.
  Arrays and these other values are the objects; the rest are primitive values.
\<close>

datatype jsval = JNum jsnum | JBool bool | JStr string | JArr "jsval list" | JUndef | JOther string

fun isObject :: "jsval \<Rightarrow> bool" where
  "isObject (JArr xs) = True"
| "isObject (JOther s) = True"
| "isObject _ = False"

text \<open>A thrown error, with its message.\<close>

datatype exn = Thrown string

text \<open>
  The characters the host's conversion of a finite number to text is made of. Which
  digits the host prints for a number is its own business (\<open>numText\<close> below); that it prints
  nothing else is what the evaluator's recursion rests on.
\<close>

datatype numch = Digit nat | Point | Minus | Plus | Exponent

definition digitChar :: "nat \<Rightarrow> char" where
  "digitChar n = ''0123456789'' ! (n mod 10)"

fun numchChar :: "numch \<Rightarrow> char" where
  "numchChar (Digit n) = digitChar n"
| "numchChar Point = CHR ''.''"
| "numchChar Minus = CHR ''-''"
| "numchChar Plus = CHR ''+''"
| "numchChar Exponent = CHR ''e''"

text \<open>
  What the program takes from the host language. An outcome is a value (\<open>Inr\<close>) or a
  thrown error (\<open>Inl\<close>); \<open>None\<close> stands for no outcome at all, a computation that never
  returns.
  \<^item> \<open>run body\<close> is \<open>new Function(body)()\<close>: the value of the function whose body is
    the text, or the error thrown while building or calling it. The text \<open>safeEval\<close>
    passes holds no letter, so it names no variable and the outcome depends on the text
    alone.
  \<^item> \<open>otherCall name args\<close> is the outcome of a built-in call that the table
    \<open>knownCall\<close> below does not cover: a built-in applied to arguments outside its
    declared parameter types, which the host converts as it goes, and the built-ins
    \<open>macd\<close>, \<open>macd_signal\<close>, \<open>macd_histogram\<close>, \<open>bb_upper\<close>, \<open>bb_middle\<close>,
    \<open>bb_lower\<close>, \<open>wr\<close>, \<open>crossover\<close> and \<open>crossunder\<close>. Such a call need not return:
    \<open>sma\<close> on the empty array with the period \<open>-Infinity\<close> counts up from \<open>-Infinity\<close>
    for ever.
  \<^item> \<open>numText r\<close> is the text of the finite number \<open>r\<close>.
  \<^item> \<open>assignError p name\<close> tells whether an assignment to the property \<open>name\<close> of an
    object whose prototype is the object \<open>p\<close> is refused, and gives the message of the
    \<open>TypeError\<close> thrown then: \<open>p\<close>, or an object up its prototype chain, holds \<open>name\<close> as
    an accessor without a setter or as a data property that is not writable (a regular
    expression holds \<open>flags\<close> so).
  Every definition below takes the host as a parameter \<open>H\<close>.
\<close>

record host =
  run :: "string \<Rightarrow> (exn + jsval) option"
  otherCall :: "string \<Rightarrow> jsval list \<Rightarrow> (exn + jsval) option"
  numText :: "real \<Rightarrow> numch list"
  assignError :: "jsval \<Rightarrow> string \<Rightarrow> string option"

record ScriptContext =
  symbol :: string
  price :: jsnum
  change :: jsnum
  changePercent :: jsnum
  historicalPrices :: "jsnum list"
  historicalHighs :: "jsnum list option"
  historicalLows :: "jsnum list option"
  indicatorCache :: "string \<rightharpoonup> jsval"

text \<open>\<open>createScriptContext\<close>: the cache starts empty.\<close>

definition createScriptContext ::
  "string \<Rightarrow> jsnum \<Rightarrow> jsnum \<Rightarrow> jsnum \<Rightarrow> jsnum list \<Rightarrow> jsnum list option \<Rightarrow> jsnum list option
   \<Rightarrow> ScriptContext" where
  "createScriptContext code p c pct prices highs lows =
     \<lparr>symbol = code, price = p, change = c, changePercent = pct, historicalPrices = prices,
      historicalHighs = highs, historicalLows = lows, indicatorCache = Map.empty\<rparr>"

text \<open>
  The result of \<open>execute\<close>. The signals are declared boolean but hold whatever value the
  expression had when that value counts as true; \<open>val\<close> is the field \<open>value\<close>, \<open>JUndef\<close>
  when the script assigns none.
\<close>

record ScriptResult =
  buySignal :: jsval
  sellSignal :: jsval
  val :: jsval
  error :: "string option"

text \<open>\<open>String(v)\<close>.\<close>

fun numberToString :: "host \<Rightarrow> jsnum \<Rightarrow> string" where
  "numberToString H (Fin r) = map numchChar (numText H r)"
| "numberToString H PInf = ''Infinity''"
| "numberToString H NInf = ''-Infinity''"
| "numberToString H NaN = ''NaN''"

fun join :: "string \<Rightarrow> string list \<Rightarrow> string" where
  "join sep [] = []"
| "join sep [x] = x"
| "join sep (x # y # ys) = x @ sep @ join sep (y # ys)"

fun toString :: "host \<Rightarrow> jsval \<Rightarrow> string" where
  "toString H (JNum n) = numberToString H n"
| "toString H (JBool b) = (if b then ''true'' else ''false'')"
| "toString H (JStr s) = s"
| "toString H (JArr xs) = join '','' (map (\<lambda>x. if x = JUndef then [] else toString H x) xs)"
| "toString H JUndef = ''undefined''"
| "toString H (JOther s) = s"

text \<open>
  The built-in variables and \<open>JSON.stringify\<close> on their values, which are numbers and
  arrays of numbers; a number that is not finite is written \<open>null\<close>.
\<close>

datatype varval = VNum jsnum | VArr "jsnum list"

fun jsonNumber :: "host \<Rightarrow> jsnum \<Rightarrow> string" where
  "jsonNumber H (Fin r) = map numchChar (numText H r)"
| "jsonNumber H _ = ''null''"

fun JSON_stringify :: "host \<Rightarrow> varval \<Rightarrow> string" where
  "JSON_stringify H (VNum n) = jsonNumber H n"
| "JSON_stringify H (VArr xs) = ''['' @ join '','' (map (jsonNumber H) xs) @ '']''"

fun toValue :: "varval \<Rightarrow> jsval" where
  "toValue (VNum n) = JNum n"
| "toValue (VArr xs) = JArr (map JNum xs)"

definition BUILTIN_VARIABLES :: "(string \<times> (ScriptContext \<Rightarrow> varval)) list" where
  "BUILTIN_VARIABLES =
     [(''close'', \<lambda>context. VNum (price context)),
      (''price'', \<lambda>context. VNum (price context)),
      (''change'', \<lambda>context. VNum (change context)),
      (''change_percent'', \<lambda>context. VNum (changePercent context)),
      (''prices'', \<lambda>context. VArr (historicalPrices context)),
      (''highs'', \<lambda>context. VArr (case historicalHighs context of Some hs \<Rightarrow> hs | None \<Rightarrow> [])),
      (''lows'', \<lambda>context. VArr (case historicalLows context of Some ls \<Rightarrow> ls | None \<Rightarrow> []))]"

text \<open>
  The first loop of \<open>evaluateExpression\<close>: every built-in variable, in the order of the
  table, is replaced by the text of its value wherever it stands as a whole word. (The
  source tests for a match first; replacing where nothing matches changes nothing.)
\<close>

definition substituteVariables :: "host \<Rightarrow> ScriptContext \<Rightarrow> string \<Rightarrow> string" where
  "substituteVariables H context expression =
     foldl (\<lambda>processedExpr (varName, varFunc).
              replaceWord varName (JSON_stringify H (varFunc context)) False processedExpr)
       expression BUILTIN_VARIABLES"

text \<open>
  The pattern of \<open>processFunctionCalls\<close>: word characters, white space if any, an
  opening parenthesis, any characters but a closing parenthesis, and a closing
  parenthesis. \<open>matchCallAt s\<close> is the match at the start of \<open>s\<close>: the longest run of
  word characters, the white space, the parenthesis, and everything up to the first
  closing one; it gives the function name, the white space, the argument text and the
  text behind the match. \<open>findCall\<close> is the leftmost match, with the text before it.
\<close>

definition matchCallAt :: "string \<Rightarrow> (string \<times> string \<times> string \<times> string) option" where
  "matchCallAt s =
     (let funcName = takeWhile isWord s;
          afterName = dropWhile isWord s;
          spaces = takeWhile isSpace afterName;
          afterSpaces = dropWhile isSpace afterName
      in case afterSpaces of
           [] \<Rightarrow> None
         | c # rest \<Rightarrow>
             if funcName \<noteq> [] \<and> c = CHR ''('' \<and> CHR '')'' \<in> set rest
             then Some (funcName, spaces, takeWhile (\<lambda>x. x \<noteq> CHR '')'') rest,
                        tl (dropWhile (\<lambda>x. x \<noteq> CHR '')'') rest))
             else None)"

fun findCall :: "string \<Rightarrow> (string \<times> string \<times> string \<times> string \<times> string) option" where
  "findCall [] = None"
| "findCall (c # cs) =
     (case matchCallAt (c # cs) of
        Some (funcName, spaces, argsStr, rest) \<Rightarrow> Some ([], funcName, spaces, argsStr, rest)
      | None \<Rightarrow>
          (case findCall cs of
             None \<Rightarrow> None
           | Some (before, m) \<Rightarrow> Some (c # before, m)))"

section \<open>The expression evaluator\<close>

text \<open>The keys of \<open>BUILTIN_FUNCTIONS\<close>.\<close>

definition BUILTIN_NAMES :: "string list" where
  "BUILTIN_NAMES =
     [''sma'', ''ema'', ''rsi'', ''macd'', ''macd_signal'', ''macd_histogram'',
      ''bb_upper'', ''bb_middle'', ''bb_lower'', ''kdj_k'', ''kdj_d'', ''kdj_j'', ''wr'',
      ''crossover'', ''crossunder'', ''abs'', ''max'', ''min'', ''round'', ''floor'', ''ceil'']"

text \<open>
  A built-in is called with whatever values the argument texts gave. \<open>arg args i\<close> is the
  \<open>i\<close>-th argument, \<open>undefined\<close> when there is none; a parameter with a default takes
  it when its argument is \<open>undefined\<close>.
\<close>

definition arg :: "jsval list \<Rightarrow> nat \<Rightarrow> jsval" where
  "arg args i = (if i < length args then args ! i else JUndef)"

definition orDefault :: "jsval \<Rightarrow> jsval \<Rightarrow> jsval" where
  "orDefault v dflt = (if v = JUndef then dflt else v)"

text \<open>An argument of the declared type: an array of numbers; a whole number that is not
  negative, for a period. (With a negative period the loops of the indicators count up
  from below zero, for ever when the period is \<open>-Infinity\<close>; such a call is left to the
  host.)\<close>

fun isNumber :: "jsval \<Rightarrow> bool" where
  "isNumber (JNum n) = True"
| "isNumber _ = False"

fun theNumber :: "jsval \<Rightarrow> jsnum" where
  "theNumber (JNum n) = n"
| "theNumber _ = NaN"

fun asNumbers :: "jsval \<Rightarrow> jsnum list option" where
  "asNumbers (JArr xs) = (if list_all isNumber xs then Some (map theNumber xs) else None)"
| "asNumbers _ = None"

fun asPeriod :: "jsval \<Rightarrow> int option" where
  "asPeriod (JNum (Fin r)) = (if r = of_int \<lfloor>r\<rfloor> \<and> 0 \<le> r then Some \<lfloor>r\<rfloor> else None)"
| "asPeriod _ = None"

text \<open>
  A number or a boolean in place of an array has no \<open>length\<close>: reading it gives
  \<open>undefined\<close>, and every comparison with \<open>undefined\<close> is false.
\<close>

fun hasNoLength :: "jsval \<Rightarrow> bool" where
  "hasNoLength (JNum n) = True"
| "hasNoLength (JBool b) = True"
| "hasNoLength _ = False"

text \<open>The host's conversion of a primitive value to a number.\<close>

fun toNumber :: "jsval \<Rightarrow> jsnum option" where
  "toNumber (JNum n) = Some n"
| "toNumber (JBool b) = Some (if b then Fin 1 else Fin 0)"
| "toNumber JUndef = Some NaN"
| "toNumber _ = None"

fun fromLatest :: "jsnum option \<Rightarrow> jsval" where
  "fromLatest None = JUndef"
| "fromLatest (Some n) = JNum n"

text \<open>
  \<open>BUILTIN_FUNCTIONS\<close> on arguments of the declared types (an array of numbers for a
  series, a whole number that is not negative for a period): the latest value of the
  indicator, \<open>undefined\<close> when the indicator's series is empty. \<open>None\<close> marks a call
  that is left to the host.

  One call outside the declared types is in the table, because the preset strategies of
  the parser make it: \<open>sma(5)\<close>, \<open>rsi(14)\<close>, with a number where the price array belongs.
  In \<open>sma\<close> and \<open>ema\<close> no guard returns early, the loop condition \<open>i < prices.length\<close>
  and the test \<open>prices.length >= period\<close> are false, and the series is empty whatever the
  period is. In \<open>rsi\<close> the first loop does not run either, there are no gains, and the
  second loop, which starts at \<open>period - 1\<close>, does not run when the period is at least 1.
\<close>

definition knownCall :: "string \<Rightarrow> jsval list \<Rightarrow> jsval option" where
  "knownCall funcName args =
     (if funcName = ''sma'' then
        (if hasNoLength (arg args 0) then Some JUndef
         else case (asNumbers (arg args 0), asPeriod (arg args 1)) of
                (Some prices, Some period) \<Rightarrow> Some (fromLatest (latest (sma prices period)))
              | _ \<Rightarrow> None)
      else if funcName = ''ema'' then
        (if hasNoLength (arg args 0) then Some JUndef
         else case (asNumbers (arg args 0), asPeriod (arg args 1)) of
                (Some prices, Some period) \<Rightarrow> Some (fromLatest (latest (ema prices period)))
              | _ \<Rightarrow> None)
      else if funcName = ''rsi'' then
        (if hasNoLength (arg args 0) then
           (case asPeriod (orDefault (arg args 1) (JNum (Fin 14))) of
              Some period \<Rightarrow> if 1 \<le> period then Some JUndef else None
            | None \<Rightarrow> None)
         else case (asNumbers (arg args 0), asPeriod (orDefault (arg args 1) (JNum (Fin 14)))) of
                (Some prices, Some period) \<Rightarrow> Some (fromLatest (latest (rsi prices period)))
              | _ \<Rightarrow> None)
      else if funcName = ''kdj_k'' \<or> funcName = ''kdj_d'' \<or> funcName = ''kdj_j'' then
        (case (asNumbers (arg args 0), asNumbers (arg args 1), asNumbers (arg args 2),
               asPeriod (orDefault (arg args 3) (JNum (Fin 9)))) of
           (Some highs, Some lows, Some closes, Some period) \<Rightarrow>
             Some (case latest (kdj highs lows closes period (Fin 3) (Fin 3)) of
                     None \<Rightarrow> JUndef
                   | Some kdjData \<Rightarrow>
                       JNum (if funcName = ''kdj_k'' then k kdjData
                             else if funcName = ''kdj_d'' then d kdjData else j kdjData))
         | _ \<Rightarrow> None)
      else if funcName = ''abs'' then map_option (\<lambda>x. JNum (Math_abs x)) (toNumber (arg args 0))
      else if funcName = ''max'' then
        map_option (\<lambda>xs. JNum (Math_max xs)) (those (map toNumber args))
      else if funcName = ''min'' then
        map_option (\<lambda>xs. JNum (Math_min xs)) (those (map toNumber args))
      else if funcName = ''round'' then
        map_option (\<lambda>x. JNum (Math_round x)) (toNumber (arg args 0))
      else if funcName = ''floor'' then
        map_option (\<lambda>x. JNum (Math_floor x)) (toNumber (arg args 0))
      else if funcName = ''ceil'' then
        map_option (\<lambda>x. JNum (Math_ceil x)) (toNumber (arg args 0))
      else None)"

text \<open>
  Every built-in but the six mathematical ones begins by reading the \<open>length\<close> of its
  first argument (\<open>sma\<close>, \<open>rsi\<close>, \<open>bollingerBands\<close>, \<open>kdj\<close>, \<open>williamsR\<close> and
  \<open>crossover\<close> in their first test, \<open>macd\<close> in that of \<open>ema\<close>), which throws a
  \<open>TypeError\<close> when that argument is \<open>undefined\<close>, as it is in a call without arguments.
\<close>

definition readsLength :: "string \<Rightarrow> bool" where
  "readsLength funcName =
     (funcName \<in> set BUILTIN_NAMES
      \<and> funcName \<notin> set [''abs'', ''max'', ''min'', ''round'', ''floor'', ''ceil''])"

definition callBuiltin :: "host \<Rightarrow> string \<Rightarrow> jsval list \<Rightarrow> (exn + jsval) option" where
  "callBuiltin H funcName args =
     (if readsLength funcName \<and> arg args 0 = JUndef then Some (Inl (Thrown ''TypeError''))
      else case knownCall funcName args of
             Some result \<Rightarrow> Some (Inr result)
           | None \<Rightarrow> otherCall H funcName args)"

text \<open>
  \<open>safeEval\<close>: every character that is not a digit, white space or one of
  \<open>+ - * / . ( ) < > = ! & | [ ] ,\<close> and the double quote is removed, the rest is evaluated
  by the host as the body \<open>return ...\<close>, and an error thrown there gives \<open>false\<close>.
\<close>

definition allowedChar :: "char \<Rightarrow> bool" where
  "allowedChar c = (isDigit c \<or> isSpace c \<or> c \<in> set ''+-*/.()<>=!&|[],'' \<or> c = CHR 0x22)"

definition safeEval :: "host \<Rightarrow> string \<Rightarrow> jsval option" where
  "safeEval H expression =
     (let safeExpr = filter allowedChar expression
      in case run H (''return '' @ safeExpr) of
           None \<Rightarrow> None
         | Some (Inr result) \<Rightarrow> Some result
         | Some (Inl _) \<Rightarrow> Some (JBool False))"

text \<open>The test of \<open>parseArguments\<close> for a number (digits, then possibly a point and
  digits), and \<open>parseFloat\<close> on such a text.\<close>

definition isNumberText :: "string \<Rightarrow> bool" where
  "isNumberText s =
     (let whole = takeWhile isDigit s; rest = dropWhile isDigit s
      in whole \<noteq> [] \<and>
         (case rest of
            [] \<Rightarrow> True
          | c # fraction \<Rightarrow> c = CHR ''.'' \<and> fraction \<noteq> [] \<and> list_all isDigit fraction))"

definition digitsValue :: "string \<Rightarrow> nat" where
  "digitsValue s = foldl (\<lambda>n c. 10 * n + (of_char c - 48)) 0 s"

definition parseFloat :: "string \<Rightarrow> jsnum" where
  "parseFloat s =
     (let whole = takeWhile isDigit s; fraction = drop 1 (dropWhile isDigit s)
      in Fin (of_nat (digitsValue whole) + of_nat (digitsValue fraction) / 10 ^ length fraction))"

text \<open>
  \<open>evaluateExpression\<close>, \<open>processFunctionCalls\<close> and \<open>parseArguments\<close> call one another:
  an argument that is neither a number, a variable nor a quoted string is evaluated as an
  expression. The recursion ends because an argument text has no closing parenthesis (the
  pattern stops at the first one) and the text of a variable's value brings none in, so
  that the expression of an argument holds no call. The lemmas up to the definition are
  for that termination proof.
\<close>

definition hasClose :: "string \<Rightarrow> nat" where
  "hasClose s = (if CHR '')'' \<in> set s then 1 else 0)"

lemma set_replaceWord: "set (replaceWord name repl prevWord s) \<subseteq> set s \<union> set repl"
proof (induction name repl prevWord s rule: replaceWord.induct)
  case (1 name repl prevWord)
  then show ?case by simp
next
  case (2 name repl prevWord c cs)
  have "set (drop (length name) (c # cs)) \<subseteq> set (c # cs)"
    by (rule set_drop_subset)
  with 2 show ?case
    by (auto simp del: drop_Suc_Cons split: if_splits)
qed

lemma digitChar_digit: "digitChar n \<in> set ''0123456789''"
  unfolding digitChar_def by (rule nth_mem) simp

lemma numchChar_not_close: "numchChar x \<noteq> CHR '')''"
proof (cases x)
  case (Digit n)
  have "CHR '')'' \<notin> set ''0123456789''"
    by simp
  then have "digitChar n \<noteq> CHR '')''"
    using digitChar_digit [of n] by metis
  then show ?thesis
    using Digit by simp
qed simp_all

lemma numText_no_close: "CHR '')'' \<notin> set (map numchChar xs)"
  by (induction xs) (simp_all add: numchChar_not_close [THEN not_sym])

lemma jsonNumber_no_close: "CHR '')'' \<notin> set (jsonNumber H n)"
  by (cases n) (simp_all add: numText_no_close del: set_map)

lemma join_no_close:
  "\<forall>x\<in>set xs. CHR '')'' \<notin> set x \<Longrightarrow> CHR '')'' \<notin> set (join '','' xs)"
  by (induction "'',''" xs rule: join.induct) auto

lemma JSON_stringify_no_close: "CHR '')'' \<notin> set (JSON_stringify H v)"
proof (cases v)
  case (VNum n)
  then show ?thesis by (simp add: jsonNumber_no_close)
next
  case (VArr xs)
  have "CHR '')'' \<notin> set (join '','' (map (jsonNumber H) xs))"
    by (rule join_no_close) (simp add: jsonNumber_no_close)
  with VArr show ?thesis by simp
qed

lemma substituteVariables_no_close:
  assumes "CHR '')'' \<notin> set expression"
  shows "CHR '')'' \<notin> set (substituteVariables H context expression)"
proof -
  have step: "CHR '')'' \<notin> set (foldl (\<lambda>processedExpr (varName, varFunc).
                 replaceWord varName (JSON_stringify H (varFunc context)) False processedExpr)
               e vars)"
    if "CHR '')'' \<notin> set e" for e and vars :: "(string \<times> (ScriptContext \<Rightarrow> varval)) list"
    using that
  proof (induction vars arbitrary: e)
    case Nil
    then show ?case by simp
  next
    case (Cons v vars)
    obtain varName varFunc where v: "v = (varName, varFunc)"
      by (cases v)
    have "CHR '')'' \<notin> set (replaceWord varName (JSON_stringify H (varFunc context)) False e)"
      using set_replaceWord [of varName "JSON_stringify H (varFunc context)" False e]
        Cons.prems JSON_stringify_no_close [of H "varFunc context"]
      by blast
    then show ?case
      using Cons.IH v by simp
  qed
  show ?thesis
    unfolding substituteVariables_def using assms by (rule step)
qed

lemma matchCallAt_props:
  assumes "matchCallAt s = Some (funcName, spaces, argsStr, rest)"
  shows "CHR '')'' \<notin> set argsStr \<and> CHR '')'' \<in> set s \<and> set rest \<subseteq> set s
         \<and> length rest < length s"
proof -
  define afterSpaces where "afterSpaces = dropWhile isSpace (dropWhile isWord s)"
  have sub: "set afterSpaces \<subseteq> set s"
    unfolding afterSpaces_def
    by (meson set_dropWhileD subsetI)
  have len: "length afterSpaces \<le> length s"
    unfolding afterSpaces_def
    by (meson length_dropWhile_le le_trans)
  from assms obtain c r where cr: "afterSpaces = c # r" and "CHR '')'' \<in> set r"
    and a: "argsStr = takeWhile (\<lambda>x. x \<noteq> CHR '')'') r"
    and b: "rest = tl (dropWhile (\<lambda>x. x \<noteq> CHR '')'') r)"
    unfolding matchCallAt_def Let_def afterSpaces_def [symmetric]
    by (auto split: list.splits if_splits)
  have 1: "CHR '')'' \<notin> set argsStr"
    unfolding a by (auto dest: set_takeWhileD)
  have 2: "CHR '')'' \<in> set s"
    using \<open>CHR '')'' \<in> set r\<close> cr sub by auto
  have "set rest \<subseteq> set r"
    unfolding b
    by (metis list.sel(2) list.set_sel(2) set_dropWhileD subsetI)
  then have 3: "set rest \<subseteq> set s"
    using cr sub by auto
  have "length rest \<le> length r"
    unfolding b
    by (metis length_dropWhile_le length_tl diff_le_self le_trans)
  then have 4: "length rest < length s"
    using cr len by simp
  show ?thesis
    using 1 2 3 4 by simp
qed

lemma findCall_props:
  "findCall s = Some (before, funcName, spaces, argsStr, rest) \<Longrightarrow>
   CHR '')'' \<notin> set argsStr \<and> CHR '')'' \<in> set s \<and> set rest \<subseteq> set s \<and> length rest < length s"
proof (induction s arbitrary: before)
  case Nil
  then show ?case by simp
next
  case (Cons c cs)
  show ?case
  proof (cases "matchCallAt (c # cs)")
    case (Some m)
    then have "matchCallAt (c # cs) = Some (funcName, spaces, argsStr, rest)"
      using Cons.prems by (auto split: prod.splits)
    then show ?thesis
      by (rule matchCallAt_props)
  next
    case None
    then obtain b where "findCall cs = Some (b, funcName, spaces, argsStr, rest)"
      using Cons.prems by (auto split: option.splits)
    then have "CHR '')'' \<notin> set argsStr \<and> CHR '')'' \<in> set cs \<and> set rest \<subseteq> set cs
               \<and> length rest < length cs"
      by (rule Cons.IH)
    then show ?thesis
      by auto
  qed
qed

lemma set_splitOn: "x \<in> set (splitOn sep s) \<Longrightarrow> set x \<subseteq> set s"
proof (induction s arbitrary: x)
  case Nil
  then show ?case by simp
next
  case (Cons c cs)
  show ?case
  proof (cases "c = sep")
    case True
    then have "x = [] \<or> x \<in> set (splitOn sep cs)"
      using Cons.prems by simp
    then show ?thesis
      using Cons.IH by auto
  next
    case False
    show ?thesis
    proof (cases "splitOn sep cs")
      case Nil
      then show ?thesis
        using Cons.prems False by simp
    next
      case (Cons p ps)
      then have "x = c # p \<or> x \<in> set ps"
        using Cons.prems False by simp
      moreover have "set p \<subseteq> set cs"
        using Cons.IH [of p] Cons by simp
      moreover have "x \<in> set ps \<Longrightarrow> set x \<subseteq> set cs"
        using Cons.IH [of x] Cons by simp
      ultimately show ?thesis
        by auto
    qed
  qed
qed

lemma set_trim: "set (trim s) \<subseteq> set s"
  unfolding trim_def
  by (metis set_dropWhileD set_rev subsetI)

lemma piece_close:
  assumes "x \<in> set (splitOn sep a)" and "CHR '')'' \<in> set (trim x)"
  shows "CHR '')'' \<in> set a"
proof -
  have "CHR '')'' \<in> set x"
    using assms(2) set_trim by (rule rev_subsetD)
  moreover have "set x \<subseteq> set a"
    using assms(1) by (rule set_splitOn)
  ultimately show ?thesis
    by (rule rev_subsetD)
qed

text \<open>
  Nothing inside the \<open>try\<close> of \<open>evaluateExpression\<close> throws (the errors of the host are
  caught in \<open>safeEval\<close>, those of a built-in in \<open>processFunctionCalls\<close>), so its \<open>catch\<close>
  has no branch here. A built-in that throws is replaced by the text \<open>0\<close>; a name that
  is no built-in is left in place with its arguments. Each of the three functions has no
  result (\<open>None\<close>) when a call it makes to the host never returns.
\<close>

function evaluateExpression :: "host \<Rightarrow> ScriptContext \<Rightarrow> string \<Rightarrow> jsval option"
  and processFunctionCalls :: "host \<Rightarrow> ScriptContext \<Rightarrow> string \<Rightarrow> string option"
  and parseArguments :: "host \<Rightarrow> ScriptContext \<Rightarrow> string \<Rightarrow> jsval list option"
where
  "evaluateExpression H context expression =
     (case processFunctionCalls H context (substituteVariables H context expression) of
        None \<Rightarrow> None
      | Some processedExpr \<Rightarrow> safeEval H processedExpr)"
| "processFunctionCalls H context expression =
     (case findCall expression of
        None \<Rightarrow> Some expression
      | Some (before, funcName, spaces, argsStr, rest) \<Rightarrow>
          (case (if funcName \<in> set BUILTIN_NAMES then
                   (case parseArguments H context argsStr of
                      None \<Rightarrow> None
                    | Some args \<Rightarrow>
                        (case callBuiltin H funcName args of
                           None \<Rightarrow> None
                         | Some (Inr result) \<Rightarrow> Some (toString H result)
                         | Some (Inl _) \<Rightarrow> Some ''0''))
                 else Some (funcName @ spaces @ ''('' @ argsStr @ '')'')) of
             None \<Rightarrow> None
           | Some replacement \<Rightarrow>
               map_option (\<lambda>processed. before @ replacement @ processed)
                 (processFunctionCalls H context rest)))"
| "parseArguments H context argsStr =
     (if trim argsStr = [] then Some []
      else those (map (\<lambda>argStr.
             if isNumberText argStr then Some (JNum (parseFloat argStr))
             else (case map_of BUILTIN_VARIABLES argStr of
                     Some varFunc \<Rightarrow> Some (toValue (varFunc context))
                   | None \<Rightarrow>
                       if startsWith argStr [CHR 0x22] \<and> endsWith argStr [CHR 0x22]
                       then Some (JStr (slice argStr 1 (- 1)))
                       else evaluateExpression H context argStr))
             (map trim (splitOn CHR '','' argsStr))))"
  by pat_completeness auto

termination
  apply (relation "measures
     [case_sum (\<lambda>(H, c, e). hasClose e) (case_sum (\<lambda>(H, c, e). hasClose e) (\<lambda>(H, c, e). hasClose e)),
      case_sum (\<lambda>_. 2) (case_sum (\<lambda>_. 1) (\<lambda>_. 3)),
      case_sum (\<lambda>_. 0) (case_sum (\<lambda>(H, c, e). length e) (\<lambda>_. 0))]")
      apply simp
     apply (simp add: hasClose_def substituteVariables_no_close)
    apply (auto simp: hasClose_def dest!: findCall_props)[1]
   apply (auto simp: hasClose_def dest!: findCall_props)[1]
  apply (auto simp: hasClose_def dest: piece_close)
  done

declare evaluateExpression.simps [simp del] processFunctionCalls.simps [simp del]
  parseArguments.simps [simp del]

section \<open>The script runner\<close>

text \<open>
  The object \<open>result\<close> of \<open>evaluateScript\<close>: its own properties by name, and its
  prototype when a script has installed one (\<open>None\<close> is the standard prototype the
  object starts with).
\<close>

record scriptObject =
  properties :: "string \<rightharpoonup> jsval"
  prototype :: "jsval option"

definition emptyObject :: scriptObject where
  "emptyObject = \<lparr>properties = Map.empty, prototype = None\<rparr>"

text \<open>
  An assignment \<open>result[name] = v\<close>, in strict code as the body of a class is. The name
  \<open>__proto__\<close> is the accessor of the standard prototype, which every object an expression
  can yield has on its chain: it installs an object as the new prototype and ignores any
  other value. An own property is overwritten. A new name becomes an own property,
  unless the installed prototype refuses the assignment, which throws a \<open>TypeError\<close>;
  no property of the standard prototype refuses one.
\<close>

definition assign :: "host \<Rightarrow> scriptObject \<Rightarrow> string \<Rightarrow> jsval \<Rightarrow> exn + scriptObject" where
  "assign H result name v =
     (if name = ''__proto__'' then
        Inr (if isObject v then result\<lparr>prototype := Some v\<rparr> else result)
      else if properties result name \<noteq> None then
        Inr (result\<lparr>properties := (properties result)(name \<mapsto> v)\<rparr>)
      else
        (case prototype result of
           None \<Rightarrow> Inr (result\<lparr>properties := (properties result)(name \<mapsto> v)\<rparr>)
         | Some p \<Rightarrow>
             (case assignError H p name of
                Some message \<Rightarrow> Inl (Thrown message)
              | None \<Rightarrow> Inr (result\<lparr>properties := (properties result)(name \<mapsto> v)\<rparr>))))"

text \<open>Whether a value counts as true in \<open>v || false\<close>.\<close>

fun truthy :: "jsval \<Rightarrow> bool" where
  "truthy (JNum (Fin r)) = (r \<noteq> 0)"
| "truthy (JNum NaN) = False"
| "truthy (JNum _) = True"
| "truthy (JBool b) = b"
| "truthy (JStr s) = (s \<noteq> [])"
| "truthy (JArr xs) = True"
| "truthy JUndef = False"
| "truthy (JOther s) = True"

text \<open>
  The body of the loop of \<open>evaluateScript\<close>. \<open>trimmedLine.split('=')[1].trim()\<close> throws
  a \<open>TypeError\<close> when the line has no second piece. In the third branch the expression
  would be \<open>undefined\<close> then, on which \<open>evaluateExpression\<close> catches its own error and
  gives \<open>false\<close>. The assignments stand outside every \<open>try\<close> but that of \<open>execute\<close>.
\<close>

definition evaluateLine ::
  "host \<Rightarrow> ScriptContext \<Rightarrow> scriptObject \<Rightarrow> string \<Rightarrow> (exn + scriptObject) option" where
  "evaluateLine H context result line =
     (let trimmedLine = trim line
      in if startsWith trimmedLine ''buy = '' \<or> startsWith trimmedLine ''buy='' then
           (case splitOn CHR ''='' trimmedLine of
              _ # piece # _ \<Rightarrow>
                map_option (assign H result ''buy'') (evaluateExpression H context (trim piece))
            | _ \<Rightarrow> Some (Inl (Thrown ''TypeError'')))
         else if startsWith trimmedLine ''sell = '' \<or> startsWith trimmedLine ''sell='' then
           (case splitOn CHR ''='' trimmedLine of
              _ # piece # _ \<Rightarrow>
                map_option (assign H result ''sell'') (evaluateExpression H context (trim piece))
            | _ \<Rightarrow> Some (Inl (Thrown ''TypeError'')))
         else if CHR ''='' \<in> set trimmedLine then
           (case map trim (splitOn CHR ''='' trimmedLine) of
              varName # expression # _ \<Rightarrow>
                map_option (assign H result varName) (evaluateExpression H context expression)
            | [varName] \<Rightarrow> Some (assign H result varName (JBool False))
            | [] \<Rightarrow> Some (assign H result ''undefined'' (JBool False)))
         else Some (Inr result))"

fun evaluateLines ::
  "host \<Rightarrow> ScriptContext \<Rightarrow> scriptObject \<Rightarrow> string list \<Rightarrow> (exn + scriptObject) option" where
  "evaluateLines H context result [] = Some (Inr result)"
| "evaluateLines H context result (line # lines) =
     (case evaluateLine H context result line of
        None \<Rightarrow> None
      | Some (Inl e) \<Rightarrow> Some (Inl e)
      | Some (Inr result') \<Rightarrow> evaluateLines H context result' lines)"

definition evaluateScript ::
  "host \<Rightarrow> ScriptContext \<Rightarrow> string \<Rightarrow> (exn + scriptObject) option" where
  "evaluateScript H context script =
     (let lines = filter (\<lambda>line. trim line \<noteq> []) (splitOn CHR 0x0A script)
      in evaluateLines H context emptyObject lines)"

text \<open>
  \<open>execute\<close>: \<open>result.buy || false\<close>, and the \<open>catch\<close> that reports a thrown error. The
  three properties read here are own properties of \<open>result\<close> or absent: no prototype a
  script can install, an array or a regular expression, has a property named \<open>buy\<close>,
  \<open>sell\<close> or \<open>value\<close>. The whole body stands in the \<open>try\<close>, so nothing is raised to
  the caller; \<open>None\<close> is a call that does not return.
\<close>

definition orFalse :: "jsval option \<Rightarrow> jsval" where
  "orFalse v = (case v of Some x \<Rightarrow> if truthy x then x else JBool False | None \<Rightarrow> JBool False)"

definition execute :: "host \<Rightarrow> ScriptContext \<Rightarrow> string \<Rightarrow> ScriptResult option" where
  "execute H context script =
     (case evaluateScript H context (preprocessScript script) of
        None \<Rightarrow> None
      | Some (Inr result) \<Rightarrow>
          Some \<lparr>buySignal = orFalse (properties result ''buy''),
                sellSignal = orFalse (properties result ''sell''),
                val = (case properties result ''value'' of Some v \<Rightarrow> v | None \<Rightarrow> JUndef),
                error = None\<rparr>
      | Some (Inl (Thrown message)) \<Rightarrow>
          Some \<lparr>buySignal = JBool False, sellSignal = JBool False, val = JUndef,
                error = Some message\<rparr>)"

section \<open>A host for closed evaluations\<close>

text \<open>
  A host to evaluate the model with on concrete scripts. Its \<open>run\<close> covers a fragment of
  the host language's expressions: decimal numerals, parentheses, array literals, the
  unary operators \<open>- + !\<close> and the binary operators \<open>* / + - < > <= >= == != === !== && ||\<close>
  with the host's precedences, on numbers, booleans and \<open>undefined\<close>. It answers
  \<open>Unmodelled\<close> for every text outside the fragment (another token, a call, an index, a
  comma operator, an operand that is an array or a string where a number is needed, a
  line break), and \<open>SyntaxError\<close> only for a text the host rejects as well. An empty text
  is the body \<open>return\<close>, whose value is \<open>undefined\<close>. For a text outside the fragment,
  and for a built-in call outside the table \<open>knownCall\<close>, this host has no outcome
  (\<open>None\<close>), and neither has the evaluation of a script that needs one: a closed
  theorem below that states a result has stayed inside what is modelled. The only objects
  this host yields are arrays, on which no assignment is refused.
\<close>

datatype token = TNum jsnum | TOp string | TLParen | TRParen | TLBracket | TRBracket | TComma

definition isOpChar :: "char \<Rightarrow> bool" where
  "isOpChar c = (c \<in> set ''+-*/<>=!&|'')"

definition isNumChar :: "char \<Rightarrow> bool" where
  "isNumChar c = (isDigit c \<or> c = CHR ''.'')"

definition numberToken :: "string \<Rightarrow> jsnum option" where
  "numberToken s =
     (let whole = takeWhile isDigit s; rest = dropWhile isDigit s;
          fraction = drop 1 rest
      in if (rest = [] \<or> list_all isDigit fraction) \<and> (whole \<noteq> [] \<or> fraction \<noteq> [])
            \<and> \<not> (length whole > 1 \<and> hd whole = CHR ''0'')
         then Some (Fin (of_nat (digitsValue whole)
                          + of_nat (digitsValue fraction) / 10 ^ length fraction))
         else None)"

definition operators :: "string list" where
  "operators = [''+'', ''-'', ''*'', ''/'', ''<'', ''>'', ''<='', ''>='', ''=='', ''!='',
                ''==='', ''!=='', ''&&'', ''||'', ''!'']"

function tokenize :: "string \<Rightarrow> token list option" where
  "tokenize [] = Some []"
| "tokenize (c # cs) =
     (if c = CHR '' '' \<or> c = CHR 0x09 then tokenize cs
      else if isNumChar c then
        (case numberToken (c # takeWhile isNumChar cs) of
           None \<Rightarrow> None
         | Some n \<Rightarrow> map_option ((#) (TNum n)) (tokenize (dropWhile isNumChar cs)))
      else if isOpChar c then
        (if c # takeWhile isOpChar cs \<in> set operators
         then map_option ((#) (TOp (c # takeWhile isOpChar cs))) (tokenize (dropWhile isOpChar cs))
         else None)
      else if c = CHR ''('' then map_option ((#) TLParen) (tokenize cs)
      else if c = CHR '')'' then map_option ((#) TRParen) (tokenize cs)
      else if c = CHR ''['' then map_option ((#) TLBracket) (tokenize cs)
      else if c = CHR '']'' then map_option ((#) TRBracket) (tokenize cs)
      else if c = CHR '','' then map_option ((#) TComma) (tokenize cs)
      else None)"
  by pat_completeness auto
termination
  by (relation "measure length") (auto intro: le_less_trans [OF length_dropWhile_le])

definition looseEq :: "jsval \<Rightarrow> jsval \<Rightarrow> bool option" where
  "looseEq a b =
     (if a = JUndef \<and> b = JUndef then Some True
      else if a = JUndef \<or> b = JUndef then
        (case (toNumber a, toNumber b) of (Some _, Some _) \<Rightarrow> Some False | _ \<Rightarrow> None)
      else (case (toNumber a, toNumber b) of (Some x, Some y) \<Rightarrow> Some (jeq x y) | _ \<Rightarrow> None))"

fun strictEq :: "jsval \<Rightarrow> jsval \<Rightarrow> bool option" where
  "strictEq (JNum x) (JNum y) = Some (jeq x y)"
| "strictEq (JBool x) (JBool y) = Some (x = y)"
| "strictEq JUndef JUndef = Some True"
| "strictEq a b = (case (toNumber a, toNumber b) of (Some _, Some _) \<Rightarrow> Some False | _ \<Rightarrow> None)"

definition arithmetic :: "(jsnum \<Rightarrow> jsnum \<Rightarrow> jsnum) \<Rightarrow> jsval \<Rightarrow> jsval \<Rightarrow> jsval option" where
  "arithmetic f a b =
     (case (toNumber a, toNumber b) of (Some x, Some y) \<Rightarrow> Some (JNum (f x y)) | _ \<Rightarrow> None)"

definition comparison :: "(jsnum \<Rightarrow> jsnum \<Rightarrow> bool) \<Rightarrow> jsval \<Rightarrow> jsval \<Rightarrow> jsval option" where
  "comparison f a b =
     (case (toNumber a, toNumber b) of (Some x, Some y) \<Rightarrow> Some (JBool (f x y)) | _ \<Rightarrow> None)"

definition binary :: "string \<Rightarrow> jsval \<Rightarrow> jsval \<Rightarrow> jsval option" where
  "binary op a b =
     (if op = ''+'' then arithmetic jadd a b
      else if op = ''-'' then arithmetic jsub a b
      else if op = ''*'' then arithmetic jmul a b
      else if op = ''/'' then arithmetic jdiv a b
      else if op = ''<'' then comparison jlt a b
      else if op = ''>'' then comparison (\<lambda>x y. jlt y x) a b
      else if op = ''<='' then comparison jle a b
      else if op = ''>='' then comparison (\<lambda>x y. jle y x) a b
      else if op = ''=='' then map_option JBool (looseEq a b)
      else if op = ''!='' then map_option (\<lambda>r. JBool (\<not> r)) (looseEq a b)
      else if op = ''==='' then map_option JBool (strictEq a b)
      else if op = ''!=='' then map_option (\<lambda>r. JBool (\<not> r)) (strictEq a b)
      else if op = ''&&'' then Some (if truthy a then b else a)
      else if op = ''||'' then Some (if truthy a then a else b)
      else None)"

definition unary :: "string \<Rightarrow> jsval \<Rightarrow> jsval option" where
  "unary op a =
     (if op = ''-'' then map_option (\<lambda>x. JNum (jneg x)) (toNumber a)
      else if op = ''+'' then map_option JNum (toNumber a)
      else if op = ''!'' then Some (JBool (\<not> truthy a))
      else None)"

definition precedence :: "string \<Rightarrow> nat option" where
  "precedence op =
     (if op = ''||'' then Some 1
      else if op = ''&&'' then Some 2
      else if op \<in> set [''=='', ''!='', ''==='', ''!==''] then Some 3
      else if op \<in> set [''<'', ''>'', ''<='', ''>=''] then Some 4
      else if op \<in> set [''+'', ''-''] then Some 5
      else if op \<in> set [''*'', ''/''] then Some 6
      else None)"

datatype outcome = Value jsval "token list" | SyntaxError | Unmodelled

fun parseExpression :: "nat \<Rightarrow> nat \<Rightarrow> token list \<Rightarrow> outcome"
  and parseOperand :: "nat \<Rightarrow> token list \<Rightarrow> outcome"
  and parseOperators :: "nat \<Rightarrow> nat \<Rightarrow> jsval \<Rightarrow> token list \<Rightarrow> outcome"
  and parseElements :: "nat \<Rightarrow> jsval list \<Rightarrow> token list \<Rightarrow> outcome"
where
  "parseExpression 0 p ts = Unmodelled"
| "parseExpression (Suc f) p ts =
     (case parseOperand f ts of
        Value lhs rest \<Rightarrow> parseOperators f p lhs rest
      | other \<Rightarrow> other)"
| "parseOperand 0 ts = Unmodelled"
| "parseOperand (Suc f) [] = SyntaxError"
| "parseOperand (Suc f) (TNum n # ts) = Value (JNum n) ts"
| "parseOperand (Suc f) (TOp op # ts) =
     (if op \<in> set [''-'', ''+'', ''!''] then
        (case parseOperand f ts of
           Value v rest \<Rightarrow>
             (if rest \<noteq> [] \<and> hd rest \<in> {TLParen, TLBracket} then Unmodelled
              else case unary op v of Some r \<Rightarrow> Value r rest | None \<Rightarrow> Unmodelled)
         | other \<Rightarrow> other)
      else if op = ''/'' then Unmodelled
      else SyntaxError)"
| "parseOperand (Suc f) (TLParen # ts) =
     (case parseExpression f 1 ts of
        Value v (TRParen # rest) \<Rightarrow> Value v rest
      | Value v (TComma # rest) \<Rightarrow> Unmodelled
      | Value v rest \<Rightarrow> SyntaxError
      | other \<Rightarrow> other)"
| "parseOperand (Suc f) (TLBracket # TRBracket # ts) = Value (JArr []) ts"
| "parseOperand (Suc f) (TLBracket # ts) = parseElements f [] ts"
| "parseOperand (Suc f) (TRParen # ts) = SyntaxError"
| "parseOperand (Suc f) (TRBracket # ts) = SyntaxError"
| "parseOperand (Suc f) (TComma # ts) = SyntaxError"
| "parseOperators 0 p lhs ts = Unmodelled"
| "parseOperators (Suc f) p lhs (TOp op # ts) =
     (case precedence op of
        None \<Rightarrow> Value lhs (TOp op # ts)
      | Some q \<Rightarrow>
          if q < p then Value lhs (TOp op # ts)
          else (case parseExpression f (q + 1) ts of
                  Value rhs rest \<Rightarrow>
                    (case binary op lhs rhs of
                       Some v \<Rightarrow> parseOperators f p v rest
                     | None \<Rightarrow> Unmodelled)
                | other \<Rightarrow> other))"
| "parseOperators (Suc f) p lhs (TLParen # ts) = Unmodelled"
| "parseOperators (Suc f) p lhs (TLBracket # ts) = Unmodelled"
| "parseOperators (Suc f) p lhs ts = Value lhs ts"
| "parseElements 0 acc ts = Unmodelled"
| "parseElements (Suc f) acc (TComma # ts) = Unmodelled"
| "parseElements (Suc f) acc (TRBracket # ts) = Unmodelled"
| "parseElements (Suc f) acc ts =
     (case parseExpression f 1 ts of
        Value v (TComma # rest) \<Rightarrow> parseElements f (acc @ [v]) rest
      | Value v (TRBracket # rest) \<Rightarrow> Value (JArr (acc @ [v])) rest
      | Value v rest \<Rightarrow> SyntaxError
      | other \<Rightarrow> other)"

definition evalText :: "string \<Rightarrow> outcome" where
  "evalText s =
     (case tokenize s of
        None \<Rightarrow> Unmodelled
      | Some [] \<Rightarrow> Value JUndef []
      | Some ts \<Rightarrow>
          (case parseExpression (4 * length ts + 4) 1 ts of
             Value v [] \<Rightarrow> Value v []
           | Value v (TComma # rest) \<Rightarrow> Unmodelled
           | Value v rest \<Rightarrow> SyntaxError
           | other \<Rightarrow> other))"

definition jsRun :: "string \<Rightarrow> (exn + jsval) option" where
  "jsRun body =
     (if startsWith body ''return '' then
        (case evalText (drop 7 body) of
           Value v rest \<Rightarrow> Some (Inr v)
         | SyntaxError \<Rightarrow> Some (Inl (Thrown ''SyntaxError''))
         | Unmodelled \<Rightarrow> None)
      else None)"

text \<open>
  The text of a number for this host: the decimal expansion, cut after 17 decimal places.
  It is what the host language prints for a whole number below \<open>10^21\<close> and for a number
  with a few decimal places that is not smaller than \<open>10^-6\<close>.
\<close>

fun natDigits :: "nat \<Rightarrow> numch list" where
  "natDigits n = (if n < 10 then [Digit n] else natDigits (n div 10) @ [Digit (n mod 10)])"

declare natDigits.simps [simp del]

fun fractionDigits :: "nat \<Rightarrow> real \<Rightarrow> numch list" where
  "fractionDigits 0 x = []"
| "fractionDigits (Suc n) x =
     (if x = 0 then []
      else Digit (nat \<lfloor>x * 10\<rfloor>) # fractionDigits n (x * 10 - of_int \<lfloor>x * 10\<rfloor>))"

definition decimalText :: "real \<Rightarrow> numch list" where
  "decimalText r =
     (if r < 0 then [Minus] else [])
     @ natDigits (nat \<lfloor>\<bar>r\<bar>\<rfloor>)
     @ (if \<bar>r\<bar> = of_int \<lfloor>\<bar>r\<bar>\<rfloor> then []
        else Point # fractionDigits 17 (\<bar>r\<bar> - of_int \<lfloor>\<bar>r\<bar>\<rfloor>))"

definition jsHost :: host where
  "jsHost = \<lparr>run = jsRun, otherCall = (\<lambda>funcName args. None), numText = decimalText,
             assignError = (\<lambda>p name. None)\<rparr>"

text \<open>A quote with a given history, and a history of 15 prices whose \<open>rsi\<close> over 14
  steps is 25: one gain of 14 and one loss of 42. (The averages are 1 and 3; the program
  rounds their quotient and the sum \<open>1 + 1 / 3\<close>, and \<open>100\<close> divided by what it gets is
  75 all the same.)\<close>

definition quoteWith :: "jsnum list \<Rightarrow> ScriptContext" where
  "quoteWith history =
     createScriptContext ''600519'' (Fin 12.5) (Fin 0.25) (Fin 2) history None None"

definition oversold :: "jsnum list" where
  "oversold = [Fin 100, Fin 114] @ replicate 13 (Fin 72)"

section \<open>Short histories\<close>

text \<open>
  C7. For every period \<open>p\<close> and every price series \<open>S\<close> with fewer than \<open>p\<close> points,
  \<open>sma S p\<close> is the empty series and \<open>ema S p\<close> is the empty series.
\<close>

theorem sma_ema_short_empty:
  "int (length S) < p \<Longrightarrow> sma S p = [] \<and> ema S p = []"
  by (simp add: sma_def ema_def Let_def)

theorem sma_ema_short_empty_witness:
  "int (length [Fin 1, Fin 2]) < 3 \<and> sma [Fin 1, Fin 2] 3 = [] \<and> ema [Fin 1, Fin 2] 3 = []"
  using sma_ema_short_empty [of "[Fin 1, Fin 2]" 3] by simp

text \<open>
  C10. For every whole period \<open>p\<close> that is not negative and every price series \<open>S\<close>,
  \<open>rsi S p\<close> is empty whenever \<open>S\<close> has fewer than \<open>p + 1\<close> points (one more than \<open>sma\<close>
  and \<open>ema\<close> ask for), and has exactly \<open>length S - p\<close> values when \<open>S\<close> has at least
  \<open>p + 1\<close> points. The bound on the period is needed: the empty series has \<open>0 \<ge> -1 + 1\<close>
  points, its array of differences has length 0, not -1, and with the period -1 the loop
  runs twice, for \<open>i = -2\<close> and \<open>i = -1\<close>, where \<open>length S - p\<close> is 1.
\<close>

theorem rsi_length:
  "0 \<le> p \<Longrightarrow>
   (int (length S) < p + 1 \<longrightarrow> rsi S p = []) \<and>
   (p + 1 \<le> int (length S) \<longrightarrow> int (length (rsi S p)) = int (length S) - p)"
proof -
  assume p: "0 \<le> p"
  have short: "int (length S) < p + 1 \<Longrightarrow> rsi S p = []"
    by (simp add: rsi_def)
  have count: "int (length (rsi S p)) = int (length S) - p"
    if "p + 1 \<le> int (length S)"
  proof -
    have "S \<noteq> []"
      using that p by auto
    then have "int (length S - 1) = int (length S) - 1"
      by (cases S) auto
    then show ?thesis
      using that by (simp add: rsi_def gains_def changes_def)
  qed
  show ?thesis
    using short count by blast
qed

theorem rsi_length_witness:
  "(0::int) \<le> 2 \<and>
   int (length [Fin 1, Fin 2]) < 2 + 1 \<and> rsi [Fin 1, Fin 2] 2 = [] \<and>
   2 + 1 \<le> int (length [Fin 1, Fin 3, Fin 2]) \<and>
   int (length (rsi [Fin 1, Fin 3, Fin 2] 2)) = int (length [Fin 1, Fin 3, Fin 2]) - 2"
  using rsi_length [of 2 "[Fin 1, Fin 2]"] rsi_length [of 2 "[Fin 1, Fin 3, Fin 2]"]
  by simp

theorem rsi_length_counterexample:
  "- 1 + 1 \<le> int (length ([] :: jsnum list)) \<and>
   rsi [] (- 1) = [Fin 100, Fin 100] \<and>
   int (length (rsi [] (- 1))) \<noteq> int (length ([] :: jsnum list)) - (- 1)"
  by code_simp

section \<open>Flat series\<close>

lemma set_slice: "set (slice xs a b) \<subseteq> set xs"
  unfolding slice_def Let_def
  by (meson set_drop_subset set_take_subset subset_trans)

lemma sumOf_zeros: "\<forall>x\<in>set xs. x = Fin 0 \<Longrightarrow> sumOf xs = Fin 0"
proof -
  have "\<forall>x\<in>set xs. x = Fin 0 \<Longrightarrow> foldl jadd (Fin 0) xs = Fin 0"
    by (induction xs) auto
  then show "\<forall>x\<in>set xs. x = Fin 0 \<Longrightarrow> sumOf xs = Fin 0"
    by (simp add: sumOf_def)
qed

lemma windowAvg_zeros:
  assumes "\<forall>x\<in>set xs. x = Fin 0" and "period \<noteq> 0"
  shows "windowAvg xs period i = Fin 0"
proof -
  have "set (slice xs (i - period + 1) (i + 1)) \<subseteq> set xs"
    by (rule set_slice)
  with assms(1) have "\<forall>x\<in>set (slice xs (i - period + 1) (i + 1)). x = Fin 0"
    by (meson subsetD)
  then have "sumOf (slice xs (i - period + 1) (i + 1)) = Fin 0"
    by (rule sumOf_zeros)
  moreover have "jdiv (Fin 0) (Fin (of_int period)) = Fin 0"
    using assms(2) by simp
  ultimately show ?thesis
    by (simp only: windowAvg_def)
qed

lemma flat_change: "jlt (Fin 0) (jsub v v) = False \<and> jlt (jsub v v) (Fin 0) = False"
  by (cases v) (simp_all add: jsub_def)

lemma changes_flat: "\<forall>c\<in>set (changes (replicate n v)). c = jsub v v"
  by (auto simp: changes_def)

lemma gains_flat: "\<forall>x\<in>set (gains (replicate n v)). x = Fin 0"
  using changes_flat [of n v] flat_change [of v] by (auto simp: gains_def)

lemma losses_flat: "\<forall>x\<in>set (losses (replicate n v)). x = Fin 0"
  using changes_flat [of n v] flat_change [of v] by (auto simp: losses_def)

text \<open>
  C8. For every window of consecutive price differences whose average loss is exactly
  zero, \<open>rsi\<close> outputs exactly 100 at that point; in particular, for every flat series
  (all prices equal) and every period other than 0, every computed value is 100. With
  period 0 every window is empty, the averages are \<open>0 / 0\<close>, and the values are \<open>NaN\<close>.
\<close>

theorem rsi_flat:
  "(jeq (windowAvg ls period i) (Fin 0) \<longrightarrow> rsiAt gs ls period i = Fin 100) \<and>
   (period \<noteq> 0 \<longrightarrow> (\<forall>x\<in>set (rsi (replicate n v) period). x = Fin 100))"
proof -
  have first: "jeq (windowAvg ls period i) (Fin 0) \<longrightarrow> rsiAt gs ls period i = Fin 100"
    by (simp add: rsiAt_def)
  have point: "rsiAt (gains (replicate n v)) (losses (replicate n v)) period i = Fin 100"
    if "period \<noteq> 0" for i
    using windowAvg_zeros [OF losses_flat that] by (simp add: rsiAt_def jeq_def)
  have second: "period \<noteq> 0 \<longrightarrow> (\<forall>x\<in>set (rsi (replicate n v) period). x = Fin 100)"
    using point by (auto simp: rsi_def)
  show ?thesis
    using first second by (rule conjI)
qed

theorem rsi_flat_witness:
  "jeq (windowAvg [Fin 0, Fin 0] 2 1) (Fin 0) \<and> rsiAt [Fin 3, Fin 0] [Fin 0, Fin 0] 2 1 = Fin 100 \<and>
   (2::int) \<noteq> 0 \<and> rsi (replicate 4 (Fin 5)) 2 = [Fin 100, Fin 100]"
  using rsi_flat [of "[Fin 0, Fin 0]" 2 1 "[Fin 3, Fin 0]" 4 "Fin 5"] by code_simp

theorem rsi_flat_counterexample:
  "rsi [Fin 5, Fin 5] 0 = [NaN, NaN]"
  by code_simp

lemma map_const: "\<forall>x\<in>set xs. f x = c \<Longrightarrow> map f xs = replicate (length xs) c"
  by (induction xs) auto

lemma smoothLoop_flat:
  "smoothLoop (Fin 3) (Fin 50) (replicate m (Fin 50)) = replicate m (Fin 50)"
  by (induction m) (simp_all add: jsub_def Let_def)

text \<open>
  C9. \<open>kdj\<close> takes RSV to be 50 whenever the window's highest high equals its lowest low,
  and starts both smoothing loops from 50; consequently, when every window is flat, the
  output is \<open>k = 50\<close>, \<open>d = 50\<close>, \<open>j = 3 * 50 - 2 * 50 = 50\<close> at every computed point, one
  for each window. The smoothing factors are the 3 and 3 that \<open>kdj\<close> declares as
  defaults and that every call in the program leaves in place (\<open>kdj_k\<close>, \<open>kdj_d\<close> and
  \<open>kdj_j\<close> pass four arguments); with them each step is \<open>(50 + 2 * 50) / 3\<close>, which is
  50 without rounding. The two starting values show where a window is not flat: with the
  high 4, the low 0 and the close 3.125, RSV is 78.125, K is \<open>(78.125 + 2 * 50) / 3\<close> and
  D is \<open>(59.375 + 2 * 50) / 3\<close>, all of them computed without rounding.
\<close>

theorem kdj_flat:
  "(jeq (Math_max (slice highs (n - period + 1) (n + 1)))
        (Math_min (slice lows (n - period + 1) (n + 1)))
      \<longrightarrow> rsvAt highs lows closes period n = Fin 50) \<and>
   ((\<forall>i\<in>set [period - 1 .. int (length closes) - 1].
        jeq (Math_max (slice highs (i - period + 1) (i + 1)))
            (Math_min (slice lows (i - period + 1) (i + 1))))
      \<longrightarrow> kdj highs lows closes period (Fin 3) (Fin 3)
          = (if int (length highs) < period \<or> int (length lows) < period
                \<or> int (length closes) < period then []
             else replicate (nat (int (length closes) - period + 1))
                    \<lparr>k = Fin 50, d = Fin 50, j = Fin 50\<rparr>)) \<and>
   kdj [Fin 4] [Fin 0] [Fin 3.125] 1 (Fin 3) (Fin 3)
     = [\<lparr>k = Fin 59.375, d = Fin 53.125, j = Fin 71.875\<rparr>]"
proof -
  let ?r = "[period - 1 .. int (length closes) - 1]"
  have first: "jeq (Math_max (slice highs (n - period + 1) (n + 1)))
                   (Math_min (slice lows (n - period + 1) (n + 1)))
               \<longrightarrow> rsvAt highs lows closes period n = Fin 50"
    by (simp add: rsvAt_def Let_def)
  have second: "kdj highs lows closes period (Fin 3) (Fin 3)
          = (if int (length highs) < period \<or> int (length lows) < period
                \<or> int (length closes) < period then []
             else replicate (nat (int (length closes) - period + 1))
                    \<lparr>k = Fin 50, d = Fin 50, j = Fin 50\<rparr>)"
    if flat: "\<forall>i\<in>set ?r. jeq (Math_max (slice highs (i - period + 1) (i + 1)))
                               (Math_min (slice lows (i - period + 1) (i + 1)))"
  proof -
    have "\<forall>i\<in>set ?r. rsvAt highs lows closes period i = Fin 50"
      using flat by (simp add: rsvAt_def Let_def)
    then have rsv: "map (rsvAt highs lows closes period) ?r = replicate (length ?r) (Fin 50)"
      by (rule map_const)
    define m where "m = length ?r"
    have m: "m = nat (int (length closes) - period + 1)"
      unfolding m_def by simp
    have kv: "smoothLoop (Fin 3) (Fin 50) (replicate m (Fin 50)) = replicate m (Fin 50)"
      by (rule smoothLoop_flat)
    have pts: "map (\<lambda>i. \<lparr>k = replicate m (Fin 50) ! i, d = replicate m (Fin 50) ! i,
                    j = jsub (jmul (Fin 3) (replicate m (Fin 50) ! i))
                          (jmul (Fin 2) (replicate m (Fin 50) ! i))\<rparr>) [0 ..< m]
               = replicate m \<lparr>k = Fin 50, d = Fin 50, j = Fin 50\<rparr>"
      by (rule nth_equalityI) (simp_all add: jsub_def)
    have "kdj highs lows closes period (Fin 3) (Fin 3)
          = (if int (length highs) < period \<or> int (length lows) < period
                \<or> int (length closes) < period then []
             else replicate m \<lparr>k = Fin 50, d = Fin 50, j = Fin 50\<rparr>)"
      unfolding kdj_def Let_def rsv m_def [symmetric] kv
      by (simp add: pts)
    then show ?thesis
      unfolding m .
  qed
  have seeds: "kdj [Fin 4] [Fin 0] [Fin 3.125] 1 (Fin 3) (Fin 3)
     = [\<lparr>k = Fin 59.375, d = Fin 53.125, j = Fin 71.875\<rparr>]"
    by code_simp
  show ?thesis
    using first second seeds by blast
qed

theorem kdj_flat_witness:
  "jeq (Math_max (slice [Fin 5, Fin 5, Fin 5] (1 - 2 + 1) (1 + 1)))
       (Math_min (slice [Fin 5, Fin 5, Fin 5] (1 - 2 + 1) (1 + 1))) \<and>
   rsvAt [Fin 5, Fin 5, Fin 5] [Fin 5, Fin 5, Fin 5] [Fin 4, Fin 5, Fin 6] 2 1 = Fin 50 \<and>
   jeq (Math_max (slice [Fin 5, Fin 5, Fin 5] (2 - 2 + 1) (2 + 1)))
       (Math_min (slice [Fin 5, Fin 5, Fin 5] (2 - 2 + 1) (2 + 1))) \<and>
   kdj [Fin 5, Fin 5, Fin 5] [Fin 5, Fin 5, Fin 5] [Fin 4, Fin 5, Fin 6] 2 (Fin 3) (Fin 3)
     = [\<lparr>k = Fin 50, d = Fin 50, j = Fin 50\<rparr>, \<lparr>k = Fin 50, d = Fin 50, j = Fin 50\<rparr>]"
  using kdj_flat [of "[Fin 5, Fin 5, Fin 5]" 1 2 "[Fin 5, Fin 5, Fin 5]" "[Fin 4, Fin 5, Fin 6]"]
  by code_simp

section \<open>Errors in a script\<close>

lemma splitOn_nonempty: "splitOn sep s \<noteq> []"
  by (induction s) (auto split: list.splits)

lemma startsWith_mem: "startsWith s p \<Longrightarrow> x \<in> set p \<Longrightarrow> x \<in> set s"
  unfolding startsWith_def by (metis in_set_takeD)

lemma no_assignment_line:
  assumes "CHR ''='' \<notin> set (trim line)"
  shows "evaluateLine H ctx result line = Some (Inr result)"
proof -
  have "\<not> startsWith (trim line) ''buy = ''" "\<not> startsWith (trim line) ''buy=''"
    "\<not> startsWith (trim line) ''sell = ''" "\<not> startsWith (trim line) ''sell=''"
    using assms startsWith_mem [of "trim line" _ "CHR ''=''"] by fastforce+
  then show ?thesis
    using assms by (simp add: evaluateLine_def)
qed

lemma no_assignment_lines:
  "\<forall>line\<in>set lines. CHR ''='' \<notin> set line \<Longrightarrow>
   evaluateLines H ctx result lines = Some (Inr result)"
proof (induction lines)
  case Nil
  then show ?case by simp
next
  case (Cons line lines)
  have "CHR ''='' \<notin> set (trim line)"
    using Cons.prems set_trim [of line] by auto
  then have "evaluateLine H ctx result line = Some (Inr result)"
    by (rule no_assignment_line)
  then show ?case
    using Cons by simp
qed

lemma no_assignment_script:
  assumes "CHR ''='' \<notin> set (preprocessScript script)"
  shows "execute H ctx script
         = Some \<lparr>buySignal = JBool False, sellSignal = JBool False, val = JUndef, error = None\<rparr>"
proof -
  let ?lines = "filter (\<lambda>line. trim line \<noteq> []) (splitOn CHR 0x0A (preprocessScript script))"
  have "\<forall>line\<in>set ?lines. CHR ''='' \<notin> set line"
    using assms set_splitOn by fastforce
  then have "evaluateLines H ctx emptyObject ?lines = Some (Inr emptyObject)"
    by (rule no_assignment_lines)
  then show ?thesis
    by (simp add: execute_def evaluateScript_def orFalse_def emptyObject_def)
qed

text \<open>An expression that names no built-in variable is left as it is by the first loop
  of \<open>evaluateExpression\<close>; it is enough that the first letter of no variable occurs.\<close>

lemma replaceWord_absent:
  "name \<noteq> [] \<Longrightarrow> hd name \<notin> set s \<Longrightarrow> replaceWord name repl prevWord s = s"
proof (induction s arbitrary: prevWord)
  case Nil
  then show ?case by simp
next
  case (Cons c cs)
  have "\<not> startsWith (c # cs) name"
    using Cons.prems by (cases name) (auto simp: startsWith_def)
  then show ?case
    using Cons by simp
qed

lemma substituteVariables_plain:
  assumes "CHR ''c'' \<notin> set s" "CHR ''p'' \<notin> set s" "CHR ''h'' \<notin> set s" "CHR ''l'' \<notin> set s"
  shows "substituteVariables H ctx s = s"
  using assms by (simp add: substituteVariables_def BUILTIN_VARIABLES_def replaceWord_absent)

lemma processFunctionCalls_none:
  "findCall expression = None \<Longrightarrow> processFunctionCalls H ctx expression = Some expression"
  by (simp add: processFunctionCalls.simps [of H ctx expression])



lemma evaluateExpression_steps:
  assumes "substituteVariables H ctx expression = substituted"
    and "processFunctionCalls H ctx substituted = Some processedExpr"
    and "filter allowedChar processedExpr = safeExpr"
    and "run H (''return '' @ safeExpr) = Some outcome"
  shows "evaluateExpression H ctx expression
         = Some (case outcome of Inr result \<Rightarrow> result | Inl _ \<Rightarrow> JBool False)"
  using assms
  by (cases outcome) (simp_all add: evaluateExpression.simps [of H ctx expression] safeEval_def)


text \<open>A line \<open>name = expression\<close> other than the two for the signals.\<close>

lemma evaluateLine_assignment:
  assumes "\<not> startsWith (trim line) ''buy = ''" and "\<not> startsWith (trim line) ''buy=''"
    and "\<not> startsWith (trim line) ''sell = ''" and "\<not> startsWith (trim line) ''sell=''"
    and "CHR ''='' \<in> set (trim line)"
    and "map trim (splitOn CHR ''='' (trim line)) = varName # expression # r"
    and "evaluateExpression H ctx expression = Some v"
  shows "evaluateLine H ctx result line = Some (assign H result varName v)"
  using assms by (simp add: evaluateLine_def)

text \<open>
  The one error that reaches the \<open>catch\<close> of \<open>execute\<close> is an assignment that the
  result object refuses. A script can bring that about: on a host where \<open>/1/\<close> is a
  regular expression, which holds \<open>flags\<close> as an accessor without a setter, the first line
  below installs it as the prototype of the result object and the second line throws.
\<close>

lemma refused_assignment_sets_error:
  assumes "run H ''return /1/'' = Some (Inr (JOther r))"
    and "run H ''return 1'' = Some (Inr (JNum (Fin 1)))"
    and "assignError H (JOther r) ''flags'' = Some message"
  shows "execute H ctx (''__proto__ = /1/'' @ [CHR 0x0A] @ ''flags = 1'')
         = Some \<lparr>buySignal = JBool False, sellSignal = JBool False, val = JUndef,
                 error = Some message\<rparr>"
proof -
  have "substituteVariables H ctx ''/1/'' = ''/1/''"
    by (rule substituteVariables_plain) simp_all
  moreover have "processFunctionCalls H ctx ''/1/'' = Some ''/1/''"
    by (rule processFunctionCalls_none) code_simp
  moreover have "filter allowedChar ''/1/'' = ''/1/''"
    by code_simp
  moreover have "run H (''return '' @ ''/1/'') = Some (Inr (JOther r))"
    using assms(1) by simp
  ultimately have object: "evaluateExpression H ctx ''/1/'' = Some (JOther r)"
    using evaluateExpression_steps [of H ctx "''/1/''" "''/1/''" "''/1/''" "''/1/''"
        "Inr (JOther r)"]
    by simp
  have "substituteVariables H ctx ''1'' = ''1''"
    by (rule substituteVariables_plain) simp_all
  moreover have "processFunctionCalls H ctx ''1'' = Some ''1''"
    by (rule processFunctionCalls_none) code_simp
  moreover have "filter allowedChar ''1'' = ''1''"
    by code_simp
  moreover have "run H (''return '' @ ''1'') = Some (Inr (JNum (Fin 1)))"
    using assms(2) by simp
  ultimately have number: "evaluateExpression H ctx ''1'' = Some (JNum (Fin 1))"
    using evaluateExpression_steps [of H ctx "''1''" "''1''" "''1''" "''1''"
        "Inr (JNum (Fin 1))"]
    by simp
  have lines: "filter (\<lambda>line. trim line \<noteq> [])
                 (splitOn CHR 0x0A (preprocessScript (''__proto__ = /1/'' @ [CHR 0x0A] @ ''flags = 1'')))
               = [''__proto__ = /1/'', ''flags = 1'']"
    by code_simp
  have "evaluateLine H ctx emptyObject ''__proto__ = /1/''
        = Some (assign H emptyObject ''__proto__'' (JOther r))"
  proof (rule evaluateLine_assignment [where r = "[]"])
    show "map trim (splitOn CHR ''='' (trim ''__proto__ = /1/'')) = [''__proto__'', ''/1/'']"
      by code_simp
    show "evaluateExpression H ctx ''/1/'' = Some (JOther r)"
      by (rule object)
  qed code_simp+
  then have first: "evaluateLine H ctx emptyObject ''__proto__ = /1/''
                    = Some (Inr (emptyObject\<lparr>prototype := Some (JOther r)\<rparr>))"
    by (simp add: assign_def)
  have "evaluateLine H ctx (emptyObject\<lparr>prototype := Some (JOther r)\<rparr>) ''flags = 1''
        = Some (assign H (emptyObject\<lparr>prototype := Some (JOther r)\<rparr>) ''flags''
                  (JNum (Fin 1)))"
  proof (rule evaluateLine_assignment [where r = "[]"])
    show "map trim (splitOn CHR ''='' (trim ''flags = 1'')) = [''flags'', ''1'']"
      by code_simp
    show "evaluateExpression H ctx ''1'' = Some (JNum (Fin 1))"
      by (rule number)
  qed code_simp+
  then have second:
    "evaluateLine H ctx (emptyObject\<lparr>prototype := Some (JOther r)\<rparr>) ''flags = 1''
     = Some (Inl (Thrown message))"
    using assms(3) by (simp add: assign_def emptyObject_def)
  show ?thesis
    unfolding execute_def evaluateScript_def Let_def lines
    using first second by simp
qed




text \<open>
  C3. The history \<open>oversold\<close> makes \<open>rsi\<close> over 14 steps resolve to 25, and executing the
  script text \<open>rsi(14) < 30\<close> returns a false buy signal, on this context and on every
  other: the script has no line of the form \<open>name = expression\<close>, and \<open>evaluateScript\<close>
  evaluates nothing else. Written as the line \<open>buy = rsi(14) < 30\<close> the signal is false
  as well: the call passes 14 as the price array and yields \<open>undefined\<close>. So it is for
  \<open>buy = rsi(prices, 14) < 30\<close>: the text of the history is cut at its commas, its first
  piece \<open>[100\<close> is no expression and evaluates to \<open>false\<close>, and \<open>rsi\<close> is called on \<open>false\<close>
  and 114.
\<close>

theorem oversold_script_no_signal:
  "latest (rsi (historicalPrices (quoteWith oversold)) 14) = Some (Fin 25) \<and>
   map_option buySignal (execute H (quoteWith oversold) ''rsi(14) < 30'') = Some (JBool False) \<and>
   map_option buySignal (execute H context ''rsi(14) < 30'') = Some (JBool False) \<and>
   map_option buySignal (execute jsHost (quoteWith oversold) ''buy = rsi(14) < 30'')
     = Some (JBool False) \<and>
   map_option buySignal (execute jsHost (quoteWith oversold) ''buy = rsi(prices, 14) < 30'')
     = Some (JBool False)"
proof -
  have "latest (rsi (historicalPrices (quoteWith oversold)) 14) = Some (Fin 25)"
    by code_simp
  moreover have "CHR ''='' \<notin> set (preprocessScript ''rsi(14) < 30'')"
    by code_simp
  moreover have
    "map_option buySignal (execute jsHost (quoteWith oversold) ''buy = rsi(14) < 30'')
     = Some (JBool False)"
    by code_simp
  moreover have
    "map_option buySignal (execute jsHost (quoteWith oversold) ''buy = rsi(prices, 14) < 30'')
     = Some (JBool False)"
    by code_simp
  ultimately show ?thesis
    by (simp add: no_assignment_script)
qed

section \<open>Operators in a script\<close>

text \<open>
  C1. The entry \<open>'/'\<close> of the operator table takes \<open>1 / 0\<close> to 0, but the expression
  \<open>1/0 > 0\<close> is evaluated by the host, where \<open>1 / 0\<close> is \<open>Infinity\<close>: as a buy condition
  it gives a true signal. (The script that is the bare condition has no line of the form
  \<open>name = expression\<close>; nothing of it is evaluated and both signals are false.)
\<close>

theorem division_by_zero_in_script:
  "OPERATORS_div (Fin 1) (Fin 0) = Fin 0 \<and>
   evalText ''1/0 > 0'' = Value (JBool True) [] \<and>
   execute jsHost (quoteWith []) ''buy = 1/0 > 0''
     = Some \<lparr>buySignal = JBool True, sellSignal = JBool False, val = JUndef, error = None\<rparr> \<and>
   execute jsHost (quoteWith []) ''1/0 > 0''
     = Some \<lparr>buySignal = JBool False, sellSignal = JBool False, val = JUndef, error = None\<rparr>"
  by code_simp

text \<open>
  C4. The entries \<open>'=='\<close> and \<open>'!='\<close> of the operator table compare within \<open>0.0001\<close>, but
  an expression is evaluated by the host, whose \<open>==\<close> is exact: \<open>1 == 1.00001\<close> is false
  there. Through \<open>execute\<close> the operator is not even reached: the line \<open>buy = 1 == 2\<close> is
  cut at its \<open>=\<close> signs, the expression is \<open>1\<close>, and the buy signal is that number.
\<close>

theorem equality_in_script:
  "OPERATORS_eq (Fin 1) (Fin 1.00001) \<and> \<not> OPERATORS_ne (Fin 1) (Fin 1.00001) \<and>
   safeEval jsHost ''1 == 1.00001'' = Some (JBool False) \<and>
   safeEval jsHost ''1 != 1.00001'' = Some (JBool True) \<and>
   \<not> OPERATORS_eq (Fin 1) (Fin 2) \<and>
   map_option buySignal (execute jsHost (quoteWith []) ''buy = 1 == 2'') = Some (JNum (Fin 1))"
  by code_simp

section \<open>The indicator cache and the history\<close>

lemma substituteVariables_cache:
  "substituteVariables H (ctx\<lparr>indicatorCache := m\<rparr>) expression
   = substituteVariables H ctx expression"
  by (simp add: substituteVariables_def BUILTIN_VARIABLES_def)

lemma map_of_variables_cache:
  "map_of BUILTIN_VARIABLES name = Some varFunc \<Longrightarrow>
   varFunc (ctx\<lparr>indicatorCache := m\<rparr>) = varFunc ctx"
  by (auto simp: BUILTIN_VARIABLES_def split: if_splits)

lemma evaluator_cache:
  "evaluateExpression H ctx expression
   = evaluateExpression H (ctx\<lparr>indicatorCache := m\<rparr>) expression"
  "processFunctionCalls H ctx expression
   = processFunctionCalls H (ctx\<lparr>indicatorCache := m\<rparr>) expression"
  "parseArguments H ctx expression
   = parseArguments H (ctx\<lparr>indicatorCache := m\<rparr>) expression"
proof (induction H ctx expression and H ctx expression and H ctx expression
    rule: evaluateExpression_processFunctionCalls_parseArguments.induct)
  case (1 H ctx expression)
  then show ?case
    unfolding evaluateExpression.simps [of H ctx expression]
      evaluateExpression.simps [of H "ctx\<lparr>indicatorCache := m\<rparr>" expression]
    by (simp add: substituteVariables_cache)
next
  case (2 H ctx expression)
  show ?case
  proof (cases "findCall expression")
    case None
    then show ?thesis
      unfolding processFunctionCalls.simps [of H ctx expression]
        processFunctionCalls.simps [of H "ctx\<lparr>indicatorCache := m\<rparr>" expression]
      by simp
  next
    case (Some found)
    obtain before funcName spaces argsStr rest
      where found: "found = (before, funcName, spaces, argsStr, rest)"
      by (cases found)
    define replacement where "replacement c =
        (if funcName \<in> set BUILTIN_NAMES then
           (case parseArguments H c argsStr of
              None \<Rightarrow> None
            | Some args \<Rightarrow>
                (case callBuiltin H funcName args of
                   None \<Rightarrow> None
                 | Some (Inr result) \<Rightarrow> Some (toString H result)
                 | Some (Inl _) \<Rightarrow> Some ''0''))
         else Some (funcName @ spaces @ ''('' @ argsStr @ '')''))" for c
    have args: "funcName \<in> set BUILTIN_NAMES \<Longrightarrow>
                parseArguments H ctx argsStr
                = parseArguments H (ctx\<lparr>indicatorCache := m\<rparr>) argsStr"
      using "2.IH"(1) Some found by simp
    then have same: "replacement (ctx\<lparr>indicatorCache := m\<rparr>) = replacement ctx"
      unfolding replacement_def by simp
    have rest: "processFunctionCalls H ctx rest
                = processFunctionCalls H (ctx\<lparr>indicatorCache := m\<rparr>) rest"
      if "replacement ctx = Some x" for x
      using "2.IH"(2) [OF Some _ _ _ _ that [unfolded replacement_def]] found by simp
    have unfolded: "processFunctionCalls H c expression
          = (case replacement c of
               None \<Rightarrow> None
             | Some x \<Rightarrow>
                 map_option (\<lambda>processed. before @ x @ processed) (processFunctionCalls H c rest))"
      for c
      unfolding processFunctionCalls.simps [of H c expression] replacement_def
      using Some found by simp
    show ?thesis
      unfolding unfolded same
      using rest by (cases "replacement ctx") simp_all
  qed
next
  case (3 H ctx argsStr)
  have "(if isNumberText argStr then Some (JNum (parseFloat argStr))
         else case map_of BUILTIN_VARIABLES argStr of
                Some varFunc \<Rightarrow> Some (toValue (varFunc ctx))
              | None \<Rightarrow>
                  if startsWith argStr [CHR 0x22] \<and> endsWith argStr [CHR 0x22]
                  then Some (JStr (slice argStr 1 (- 1)))
                  else evaluateExpression H ctx argStr)
        = (if isNumberText argStr then Some (JNum (parseFloat argStr))
           else case map_of BUILTIN_VARIABLES argStr of
                  Some varFunc \<Rightarrow> Some (toValue (varFunc (ctx\<lparr>indicatorCache := m\<rparr>)))
                | None \<Rightarrow>
                    if startsWith argStr [CHR 0x22] \<and> endsWith argStr [CHR 0x22]
                    then Some (JStr (slice argStr 1 (- 1)))
                    else evaluateExpression H (ctx\<lparr>indicatorCache := m\<rparr>) argStr)"
    if "trim argsStr \<noteq> []" and "argStr \<in> set (map trim (splitOn CHR '','' argsStr))"
    for argStr
    using "3.IH" [OF that(1) that(2)] map_of_variables_cache [of argStr _ m ctx]
    by (auto split: option.splits)
  then show ?case
    unfolding parseArguments.simps [of H ctx argsStr]
      parseArguments.simps [of H "ctx\<lparr>indicatorCache := m\<rparr>" argsStr]
    by (simp cong: map_cong)
qed

lemma evaluateLine_cache:
  "evaluateLine H (ctx\<lparr>indicatorCache := m\<rparr>) result line = evaluateLine H ctx result line"
  unfolding evaluateLine_def Let_def
  by (simp add: evaluator_cache(1) [of H ctx _ m, symmetric] cong: list.case_cong if_cong)

lemma evaluateLines_cache:
  "evaluateLines H (ctx\<lparr>indicatorCache := m\<rparr>) result lines
   = evaluateLines H ctx result lines"
  by (induction lines arbitrary: result)
    (simp_all add: evaluateLine_cache cong: option.case_cong sum.case_cong)

text \<open>
  C5. No evaluation reuses a value cached under another context: what a context's cache
  holds has no part in the result of \<open>execute\<close>. But the result does not follow the
  context's own history either. The moving averages over one step of the histories
  \<open>[60, 60]\<close> and \<open>[1, 1]\<close> are 60 and 1, and the condition \<open>sma(prices, 1) > 50\<close> holds
  for the first history only; yet in both contexts the text of the history is cut at its
  comma, the pieces \<open>[60\<close> and \<open>60]\<close> are no expressions, \<open>sma\<close> is called on \<open>false\<close>,
  \<open>false\<close> and 1, the indicator value used is \<open>undefined\<close>, and the buy signal of
  \<open>buy = sma(prices, 1) > 50\<close> is false.
\<close>

theorem histories_not_distinguished:
  "execute H (later\<lparr>indicatorCache := cache\<rparr>) script = execute H later script \<and>
   latest (sma (historicalPrices (quoteWith [Fin 60, Fin 60])) 1) = Some (Fin 60) \<and>
   latest (sma (historicalPrices (quoteWith [Fin 1, Fin 1])) 1) = Some (Fin 1) \<and>
   substituteVariables jsHost (quoteWith [Fin 60, Fin 60]) ''sma(prices, 1) > 50''
     = ''sma([60,60], 1) > 50'' \<and>
   parseArguments jsHost (quoteWith [Fin 60, Fin 60]) ''[60,60], 1''
     = Some [JBool False, JBool False, JNum (Fin 1)] \<and>
   processFunctionCalls jsHost (quoteWith [Fin 60, Fin 60]) ''sma([60,60], 1) > 50''
     = Some ''undefined > 50'' \<and>
   processFunctionCalls jsHost (quoteWith [Fin 1, Fin 1])
       (substituteVariables jsHost (quoteWith [Fin 1, Fin 1]) ''sma(prices, 1) > 50'')
     = Some ''undefined > 50'' \<and>
   execute jsHost (quoteWith [Fin 60, Fin 60]) ''buy = sma(prices, 1) > 50''
     = Some \<lparr>buySignal = JBool False, sellSignal = JBool False, val = JUndef, error = None\<rparr> \<and>
   execute jsHost (quoteWith [Fin 1, Fin 1]) ''buy = sma(prices, 1) > 50''
     = Some \<lparr>buySignal = JBool False, sellSignal = JBool False, val = JUndef, error = None\<rparr>"
proof -
  have cache: "execute H (later\<lparr>indicatorCache := cache\<rparr>) script = execute H later script"
    by (simp add: execute_def evaluateScript_def evaluateLines_cache)
  have averages: "latest (sma (historicalPrices (quoteWith [Fin 60, Fin 60])) 1) = Some (Fin 60)"
    "latest (sma (historicalPrices (quoteWith [Fin 1, Fin 1])) 1) = Some (Fin 1)"
    by code_simp+
  have first: "substituteVariables jsHost (quoteWith [Fin 60, Fin 60]) ''sma(prices, 1) > 50''
     = ''sma([60,60], 1) > 50''"
    "parseArguments jsHost (quoteWith [Fin 60, Fin 60]) ''[60,60], 1''
     = Some [JBool False, JBool False, JNum (Fin 1)]"
    "processFunctionCalls jsHost (quoteWith [Fin 60, Fin 60]) ''sma([60,60], 1) > 50''
     = Some ''undefined > 50''"
    "execute jsHost (quoteWith [Fin 60, Fin 60]) ''buy = sma(prices, 1) > 50''
     = Some \<lparr>buySignal = JBool False, sellSignal = JBool False, val = JUndef, error = None\<rparr>"
    by code_simp+
  have second: "processFunctionCalls jsHost (quoteWith [Fin 1, Fin 1])
       (substituteVariables jsHost (quoteWith [Fin 1, Fin 1]) ''sma(prices, 1) > 50'')
     = Some ''undefined > 50''"
    "execute jsHost (quoteWith [Fin 1, Fin 1]) ''buy = sma(prices, 1) > 50''
     = Some \<lparr>buySignal = JBool False, sellSignal = JBool False, val = JUndef, error = None\<rparr>"
    by code_simp+
  show ?thesis
    using cache averages first second by simp
qed

section \<open>Too short a history in a script\<close>






end
